theory Spec2Isabelle
  imports Main
begin

section \<open>Python values\<close>

text \<open>
  The module handles values that come from YAML/JSON: None, booleans, integers, strings,
  lists and dictionaries. A dictionary is an association list in insertion order, as
  Python keeps it; keys are strings. Strings are lists of characters with code points
  below 256. Floating point numbers are left out.
\<close>

datatype pyval =
    PNone
  | PBool bool
  | PInt int
  | PStr string
  | PList "pyval list"
  | PDict "(string \<times> pyval) list"

type_synonym pydict = "(string \<times> pyval) list"

datatype py_error =
    KeyError string
  | TypeError
  | AttributeError
  | IndexError
  | ValueError
  | SystemError
  | RecursionError

text \<open>\<^verbatim>\<open>d[k] = v\<close>: an existing key keeps its position, a new key goes to the end.\<close>

fun dict_set :: "(string \<times> 'v) list \<Rightarrow> string \<Rightarrow> 'v \<Rightarrow> (string \<times> 'v) list" where
  "dict_set [] k v = [(k, v)]"
| "dict_set ((k', v') # kvs) k v =
     (if k' = k then (k, v) # kvs else (k', v') # dict_set kvs k v)"

text \<open>\<^verbatim>\<open>k in d\<close> and \<^verbatim>\<open>d.get(k)\<close> (\<open>None\<close> for a missing key).\<close>

definition has_key :: "pydict \<Rightarrow> string \<Rightarrow> bool" where
  "has_key d k = (map_of d k \<noteq> None)"

section \<open>Escaping\<close>

text \<open>
  \<^verbatim>\<open>escape_table = {'"': "\"", "'": "\'"}\<close>. In a Python string literal the
  sequences \<^verbatim>\<open>\"\<close> and \<^verbatim>\<open>\'\<close> denote the quote character itself, so both
  values of the table are one character long: the double quote (code 0x22) is bound to
  the double quote, the apostrophe (code 0x27) to the apostrophe.
\<close>

definition escape_table :: "(string \<times> string) list" where
  "escape_table = [([CHR 0x22], [CHR 0x22]), ([CHR 0x27], [CHR 0x27])]"

text \<open>\<^verbatim>\<open>escape_table.get(c, c)\<close> for a one-character string \<open>c\<close> of a text.\<close>

definition escape_char :: "char \<Rightarrow> string" where
  "escape_char c = (case map_of escape_table [c] of Some r \<Rightarrow> r | None \<Rightarrow> [c])"

text \<open>\<^verbatim>\<open>"".join(escape_table.get(c, c) for c in text)\<close> on a string.\<close>

definition escape_str :: "string \<Rightarrow> string" where
  "escape_str text = concat (map escape_char text)"

text \<open>
  \<^verbatim>\<open>escape_table.get(c, c)\<close> for an arbitrary element \<open>c\<close>: a list or a
  dictionary is not hashable, every other value that is not a key of the table is
  returned as it is.
\<close>

fun table_get :: "pyval \<Rightarrow> py_error + pyval" where
  "table_get (PStr s) = Inr (PStr (case map_of escape_table s of Some r \<Rightarrow> r | None \<Rightarrow> s))"
| "table_get (PList xs) = Inl TypeError"
| "table_get (PDict kvs) = Inl TypeError"
| "table_get v = Inr v"

text \<open>\<^verbatim>\<open>"".join(...)\<close>: every item has to be a string.\<close>

fun str_join :: "pyval list \<Rightarrow> py_error + string" where
  "str_join [] = Inr []"
| "str_join (PStr s # vs) = (case str_join vs of Inl e \<Rightarrow> Inl e | Inr r \<Rightarrow> Inr (s @ r))"
| "str_join (v # vs) = Inl TypeError"

fun map_err :: "('a \<Rightarrow> py_error + 'b) \<Rightarrow> 'a list \<Rightarrow> py_error + 'b list" where
  "map_err f [] = Inr []"
| "map_err f (x # xs) =
     (case f x of Inl e \<Rightarrow> Inl e
      | Inr y \<Rightarrow> (case map_err f xs of Inl e \<Rightarrow> Inl e | Inr ys \<Rightarrow> Inr (y # ys)))"

text \<open>
  \<^verbatim>\<open>escape_quotes(text)\<close> on any value: a string is walked character by character,
  a list element by element, a dictionary key by key; None, a boolean and an integer are
  not iterable. Every failure on the way is a TypeError.
\<close>

fun escape_quotes :: "pyval \<Rightarrow> py_error + pyval" where
  "escape_quotes (PStr s) = Inr (PStr (escape_str s))"
| "escape_quotes (PList xs) =
     (case map_err table_get xs of Inl e \<Rightarrow> Inl e
      | Inr ys \<Rightarrow> (case str_join ys of Inl e \<Rightarrow> Inl e | Inr r \<Rightarrow> Inr (PStr r)))"
| "escape_quotes (PDict kvs) =
     (case map_err table_get (map (PStr \<circ> fst) kvs) of Inl e \<Rightarrow> Inl e
      | Inr ys \<Rightarrow> (case str_join ys of Inl e \<Rightarrow> Inl e | Inr r \<Rightarrow> Inr (PStr r)))"
| "escape_quotes v = Inl TypeError"

text \<open>
  \<^verbatim>\<open>recursive_escape_quotes(obj, keys)\<close> on a value tree. The test
  \<^verbatim>\<open>isinstance(v, str) and k in keys\<close> selects the string values under the given keys.
\<close>

fun recursive_escape_quotes :: "pyval \<Rightarrow> string list \<Rightarrow> pyval" where
  "recursive_escape_quotes (PDict kvs) keys =
     PDict (map (\<lambda>(k, v).
        (case v of
           PStr s \<Rightarrow> if k \<in> set keys then (k, PStr (escape_str s))
                     else (k, recursive_escape_quotes v keys)
         | _ \<Rightarrow> (k, recursive_escape_quotes v keys))) kvs)"
| "recursive_escape_quotes (PList vs) keys = PList (map (\<lambda>v. recursive_escape_quotes v keys) vs)"
| "recursive_escape_quotes obj keys = obj"

section \<open>The payload builder\<close>

definition startswith :: "string \<Rightarrow> string \<Rightarrow> bool" where
  "startswith s p = (take (length p) s = p)"

definition channel_prefixes :: "string list" where
  "channel_prefixes = [''#'', ''@'', ''C0'', ''GF'', ''G0'', ''CP'']"

definition opt_str :: "string option \<Rightarrow> pyval" where
  "opt_str x = (case x of None \<Rightarrow> PNone | Some s \<Rightarrow> PStr s)"

definition attachment_keys_to_escape :: "string list" where
  "attachment_keys_to_escape = [''title'', ''text'', ''author_name'', ''pretext'', ''fallback'']"

definition block_keys_to_escape :: "string list" where
  "block_keys_to_escape = [''text'', ''alt_text'']"

text \<open>
  The inner loop \<^verbatim>\<open>for key in attachment_keys_to_escape\<close>: a key the attachment has
  is rebound to its escaped value.
\<close>

fun escape_attachment_keys :: "string list \<Rightarrow> pydict \<Rightarrow> py_error + pydict" where
  "escape_attachment_keys [] a = Inr a"
| "escape_attachment_keys (key # keys) a =
     (case map_of a key of
        None \<Rightarrow> escape_attachment_keys keys a
      | Some v \<Rightarrow>
          (case escape_quotes v of
             Inl e \<Rightarrow> Inl e
           | Inr v' \<Rightarrow> escape_attachment_keys keys (dict_set a key v')))"

text \<open>
  One pass of the body of \<^verbatim>\<open>for attachment in attachments\<close>, up to the append: the
  result is the attachment object as the pass leaves it. The lookup
  \<^verbatim>\<open>attachment['text']\<close> raises KeyError for a missing key.
\<close>

definition process_attachment :: "pydict \<Rightarrow> py_error + pydict" where
  "process_attachment a =
     (case escape_attachment_keys attachment_keys_to_escape a of
        Inl e \<Rightarrow> Inl e
      | Inr a' \<Rightarrow>
          if has_key a' ''fallback'' then Inr a'
          else (case map_of a' ''text'' of
                  None \<Rightarrow> Inl (KeyError ''text'')
                | Some t \<Rightarrow> Inr (dict_set a' ''fallback'' t)))"

text \<open>\<^verbatim>\<open>payload[key].append(v)\<close>.\<close>

definition list_append :: "pydict \<Rightarrow> string \<Rightarrow> pyval \<Rightarrow> py_error + pydict" where
  "list_append payload key v =
     (case map_of payload key of
        None \<Rightarrow> Inl (KeyError key)
      | Some (PList xs) \<Rightarrow> Inr (dict_set payload key (PList (xs @ [v])))
      | Some _ \<Rightarrow> Inl AttributeError)"

text \<open>
  The loop over the attachments. The attachment objects belong to the caller and are
  changed in place, and the same objects are appended to the payload's list. The model
  passes that state explicitly: the first component of the result is the caller's list
  of attachment objects as the loop leaves it, the second the payload. The state of the
  caller's objects at a raise is not tracked.
\<close>

fun attachments_loop :: "pydict list \<Rightarrow> pydict \<Rightarrow> py_error + (pydict list \<times> pydict)" where
  "attachments_loop [] payload = Inr ([], payload)"
| "attachments_loop (a # as) payload =
     (case process_attachment a of
        Inl e \<Rightarrow> Inl e
      | Inr a' \<Rightarrow>
          (case list_append payload ''attachments'' (PDict a') of
             Inl e \<Rightarrow> Inl e
           | Inr payload' \<Rightarrow>
               (case attachments_loop as payload' of
                  Inl e \<Rightarrow> Inl e
                | Inr (as', p) \<Rightarrow> Inr (a' # as', p))))"

text \<open>
  \<^verbatim>\<open>build_payload_for_slack\<close>. The string parameters are \<open>None\<close> or a string, as the
  argument specification types them; \<open>link_names\<close> is \<open>None\<close> or an integer;
  \<open>attachments\<close> is \<open>None\<close> or a list of dictionaries, \<open>blocks\<close> is \<open>None\<close> or a list.
  The blocks of the function body come first, each under its own name.
\<close>

text \<open>
  \<^verbatim>\<open>dict(text=escape_quotes(text), color=color, mrkdwn_in=["text"])\<close>, the attachment
  that carries a coloured text.
\<close>

definition text_attachment :: "string \<Rightarrow> string option \<Rightarrow> pyval" where
  "text_attachment t color =
     PDict [(''text'', PStr (escape_str t)), (''color'', opt_str color),
            (''mrkdwn_in'', PList [PStr ''text''])]"

text \<open>The first \<^verbatim>\<open>if\<close>/\<^verbatim>\<open>elif\<close>: the text at top level, or in a synthetic attachment.\<close>

definition text_payload :: "string option \<Rightarrow> string option \<Rightarrow> pydict" where
  "text_payload text color =
     (case text of
        None \<Rightarrow> []
      | Some t \<Rightarrow>
          if color = Some ''normal'' then [(''text'', PStr (escape_str t))]
          else [(''attachments'', PList [text_attachment t color])])"

text \<open>\<^verbatim>\<open>if channel is not None: ...\<close> with the three policies of \<open>prepend_hash\<close>.\<close>

definition set_channel :: "pydict \<Rightarrow> string option \<Rightarrow> string option \<Rightarrow> pydict" where
  "set_channel payload channel prepend_hash =
     (case channel of
        None \<Rightarrow> payload
      | Some ch \<Rightarrow>
          if prepend_hash = Some ''auto'' then
            (if (\<exists>p \<in> set channel_prefixes. startswith ch p)
             then dict_set payload ''channel'' (PStr ch)
             else dict_set payload ''channel'' (PStr (''#'' @ ch)))
          else if prepend_hash = Some ''always'' then
            dict_set payload ''channel'' (PStr (''#'' @ ch))
          else if prepend_hash = Some ''never'' then
            dict_set payload ''channel'' (PStr ch)
          else payload)"

text \<open>\<^verbatim>\<open>if x is not None: payload[key] = x\<close>.\<close>

definition set_some :: "pydict \<Rightarrow> string \<Rightarrow> pyval option \<Rightarrow> pydict" where
  "set_some payload key x = (case x of None \<Rightarrow> payload | Some v \<Rightarrow> dict_set payload key v)"

text \<open>
  \<^verbatim>\<open>if icon_emoji is not None: payload['icon_emoji'] = icon_emoji\<close>,
  \<^verbatim>\<open>else: payload['icon_url'] = icon_url\<close>. The else branch has no test of \<open>icon_url\<close>.
\<close>

definition set_icon :: "pydict \<Rightarrow> string option \<Rightarrow> string option \<Rightarrow> pydict" where
  "set_icon payload icon_emoji icon_url =
     (case icon_emoji of
        Some e \<Rightarrow> dict_set payload ''icon_emoji'' (PStr e)
      | None \<Rightarrow> dict_set payload ''icon_url'' (opt_str icon_url))"

text \<open>
  \<^verbatim>\<open>if attachments is not None: if 'attachments' not in payload: payload['attachments'] = []\<close>.
\<close>

definition init_attachments :: "pydict \<Rightarrow> pydict list option \<Rightarrow> pydict" where
  "init_attachments payload attachments =
     (case attachments of
        None \<Rightarrow> payload
      | Some _ \<Rightarrow>
          if has_key payload ''attachments'' then payload
          else dict_set payload ''attachments'' (PList []))"

text \<open>The function up to the loop over the attachments.\<close>

definition payload_head ::
  "string option \<Rightarrow> string option \<Rightarrow> string option \<Rightarrow> string option \<Rightarrow> string option \<Rightarrow>
   string option \<Rightarrow> int option \<Rightarrow> string option \<Rightarrow> string option \<Rightarrow> pydict list option \<Rightarrow>
   string option \<Rightarrow> string option \<Rightarrow> pydict" where
  "payload_head text channel thread_id username icon_url icon_emoji link_names
     parse color attachments message_id prepend_hash =
   (let payload = text_payload text color;
        payload = set_channel payload channel prepend_hash;
        payload = set_some payload ''thread_ts'' (map_option PStr thread_id);
        payload = set_some payload ''username'' (map_option PStr username);
        payload = set_icon payload icon_emoji icon_url;
        payload = set_some payload ''link_names'' (map_option PInt link_names);
        payload = set_some payload ''parse'' (map_option PStr parse);
        payload = set_some payload ''ts'' (map_option PStr message_id)
    in init_attachments payload attachments)"

text \<open>
  The whole function: the head, the loop over the attachments, the blocks. The result
  is the caller's attachment list after the call together with the payload.
\<close>

definition build_payload_for_slack ::
  "string option \<Rightarrow> string option \<Rightarrow> string option \<Rightarrow> string option \<Rightarrow> string option \<Rightarrow>
   string option \<Rightarrow> int option \<Rightarrow> string option \<Rightarrow> string option \<Rightarrow> pydict list option \<Rightarrow>
   pyval list option \<Rightarrow> string option \<Rightarrow> string option \<Rightarrow>
   py_error + (pydict list option \<times> pydict)" where
  "build_payload_for_slack text channel thread_id username icon_url icon_emoji link_names
     parse color attachments blocks message_id prepend_hash =
   (let payload = payload_head text channel thread_id username icon_url icon_emoji link_names
                    parse color attachments message_id prepend_hash
    in
      (case (case attachments of
               None \<Rightarrow> Inr (None, payload)
             | Some as \<Rightarrow>
                 (case attachments_loop as payload of
                    Inl e \<Rightarrow> Inl e
                  | Inr (as', p) \<Rightarrow> Inr (Some as', p))) of
         Inl e \<Rightarrow> Inl e
       | Inr (atts', payload) \<Rightarrow>
           (case blocks of
              None \<Rightarrow> Inr (atts', payload)
            | Some bs \<Rightarrow>
                Inr (atts', dict_set payload ''blocks''
                       (recursive_escape_quotes (PList bs) block_keys_to_escape)))))"

text \<open>
  A condition used in the statements about attachments: the values an attachment has
  under the given keys are strings.
\<close>

definition str_fields :: "string list \<Rightarrow> pydict \<Rightarrow> bool" where
  "str_fields keys a =
     (\<forall>k \<in> set keys. case map_of a k of None \<Rightarrow> True | Some (PStr s) \<Rightarrow> True | Some _ \<Rightarrow> False)"

section \<open>Python operations on values\<close>

text \<open>Truth value of a value, as \<^verbatim>\<open>if x:\<close> and \<^verbatim>\<open>not x\<close> take it.\<close>

fun truthy :: "pyval \<Rightarrow> bool" where
  "truthy PNone = False"
| "truthy (PBool b) = b"
| "truthy (PInt n) = (n \<noteq> 0)"
| "truthy (PStr s) = (s \<noteq> [])"
| "truthy (PList xs) = (xs \<noteq> [])"
| "truthy (PDict d) = (d \<noteq> [])"

text \<open>
  \<^verbatim>\<open>a == b\<close>: a boolean equals the integer 0 or 1 it stands for, lists are compared
  element by element, dictionaries key by key whatever the order of their items.
\<close>

fun py_eq :: "pyval \<Rightarrow> pyval \<Rightarrow> bool" where
  "py_eq PNone v = (v = PNone)"
| "py_eq (PBool a) v =
     (case v of PBool b \<Rightarrow> a = b | PInt n \<Rightarrow> n = (if a then 1 else 0) | _ \<Rightarrow> False)"
| "py_eq (PInt m) v =
     (case v of PInt n \<Rightarrow> m = n | PBool b \<Rightarrow> m = (if b then 1 else 0) | _ \<Rightarrow> False)"
| "py_eq (PStr s) v = (v = PStr s)"
| "py_eq (PList xs) v = (case v of PList ys \<Rightarrow> list_all2 py_eq xs ys | _ \<Rightarrow> False)"
| "py_eq (PDict kvs) v =
     (case v of
        PDict kws \<Rightarrow>
          length kvs = length kws \<and>
          (\<forall>kx \<in> set kvs. case map_of kws (fst kx) of
                              None \<Rightarrow> False
                            | Some y \<Rightarrow> py_eq (snd kx) y)
      | _ \<Rightarrow> False)"

text \<open>\<^verbatim>\<open>x[k]\<close> for a string key, \<^verbatim>\<open>x.get(k)\<close>, \<^verbatim>\<open>x.get(k, default)\<close>.\<close>

fun py_item :: "pyval \<Rightarrow> string \<Rightarrow> py_error + pyval" where
  "py_item (PDict d) k = (case map_of d k of None \<Rightarrow> Inl (KeyError k) | Some v \<Rightarrow> Inr v)"
| "py_item v k = Inl TypeError"

fun py_get_default :: "pyval \<Rightarrow> string \<Rightarrow> pyval \<Rightarrow> py_error + pyval" where
  "py_get_default (PDict d) k dflt = Inr (case map_of d k of None \<Rightarrow> dflt | Some v \<Rightarrow> v)"
| "py_get_default v k dflt = Inl AttributeError"

definition py_get :: "pyval \<Rightarrow> string \<Rightarrow> py_error + pyval" where
  "py_get x k = py_get_default x k PNone"

text \<open>\<^verbatim>\<open>len(x)\<close> and \<^verbatim>\<open>x[0]\<close>.\<close>

fun py_len :: "pyval \<Rightarrow> py_error + nat" where
  "py_len (PStr s) = Inr (length s)"
| "py_len (PList xs) = Inr (length xs)"
| "py_len (PDict d) = Inr (length d)"
| "py_len v = Inl TypeError"

fun py_first :: "pyval \<Rightarrow> py_error + pyval" where
  "py_first (PList xs) = (case xs of [] \<Rightarrow> Inl IndexError | x # _ \<Rightarrow> Inr x)"
| "py_first (PStr s) = (case s of [] \<Rightarrow> Inl IndexError | c # _ \<Rightarrow> Inr (PStr [c]))"
| "py_first (PDict d) = Inl (KeyError ''0'')"
| "py_first v = Inl TypeError"

text \<open>The items a \<^verbatim>\<open>for\<close> loop over a value visits.\<close>

fun py_iter :: "pyval \<Rightarrow> py_error + pyval list" where
  "py_iter (PList xs) = Inr xs"
| "py_iter (PDict d) = Inr (map (PStr \<circ> fst) d)"
| "py_iter (PStr s) = Inr (map (\<lambda>c. PStr [c]) s)"
| "py_iter v = Inl TypeError"

text \<open>\<^verbatim>\<open>k in x\<close> for a string \<open>k\<close>.\<close>

definition is_substring :: "string \<Rightarrow> string \<Rightarrow> bool" where
  "is_substring k s = (\<exists>i \<in> set [0 ..< Suc (length s)]. take (length k) (drop i s) = k)"

fun py_contains :: "pyval \<Rightarrow> string \<Rightarrow> py_error + bool" where
  "py_contains (PDict d) k = Inr (has_key d k)"
| "py_contains (PList xs) k = Inr (\<exists>x \<in> set xs. py_eq x (PStr k))"
| "py_contains (PStr s) k = Inr (is_substring k s)"
| "py_contains v k = Inl TypeError"

section \<open>The module's environment\<close>

text \<open>
  What the module calls and does not define: JSON encoding and decoding
  (\<^verbatim>\<open>module.jsonify\<close>, \<^verbatim>\<open>json.dumps\<close>; \<^verbatim>\<open>module.from_json\<close>, \<^verbatim>\<open>json.loads\<close>,
  \<^verbatim>\<open>json.load\<close>, with \<open>None\<close> for a text that is not JSON), \<^verbatim>\<open>urlencode\<close>, the text
  \<^verbatim>\<open>str(e)\<close> of an exception, the file system (\<^verbatim>\<open>os.path.exists\<close>,
  \<^verbatim>\<open>os.path.getsize\<close>, and the content of the files that can be opened and read, \<open>None\<close>
  where \<^verbatim>\<open>open\<close> or \<^verbatim>\<open>read\<close> raises IOError) and \<^verbatim>\<open>os.path.basename\<close>. They are parameters of the model. A message that formats
  a value other than a string with \<^verbatim>\<open>%s\<close> is kept as the list of its parts.
\<close>

record env =
  jsonify :: "pyval \<Rightarrow> string"
  from_json :: "string \<Rightarrow> pyval option"
  urlencode :: "(string \<times> pyval) list \<Rightarrow> string"
  exc_str :: "py_error \<Rightarrow> string"
  path_exists :: "string \<Rightarrow> bool"
  getsize :: "string \<Rightarrow> int"
  files :: "string \<Rightarrow> string option"
  basename :: "string \<Rightarrow> string"

text \<open>
  A request as \<^verbatim>\<open>fetch_url\<close> sends it, and what it returns: \<^verbatim>\<open>info['status']\<close>,
  \<^verbatim>\<open>info['msg']\<close> and the text \<^verbatim>\<open>response.read()\<close> gives.
\<close>

record http_request =
  rq_method :: string
  rq_url :: string
  rq_headers :: "(string \<times> string) list"
  rq_data :: "string option"

record http_response =
  rs_status :: int
  rs_msg :: string
  rs_body :: string

text \<open>
  The network: the responses the servers will give, in the order of the requests, and
  the requests sent so far. A run that needs more responses than the script holds ends
  with \<open>NoResponse\<close>; the request is recorded all the same.
\<close>

record world =
  script :: "http_response list"
  trace :: "http_request list"

text \<open>
  How a run ends: \<^verbatim>\<open>module.exit_json\<close> and \<^verbatim>\<open>module.fail_json\<close> with their keyword
  arguments (both leave the process, and \<^verbatim>\<open>except Exception\<close> does not catch them), an
  exception nobody catches, or a script that ran out.
\<close>

datatype outcome =
    ExitJson pydict
  | FailJson pydict
  | Raised py_error
  | NoResponse

type_synonym 'a run = "(outcome + 'a) \<times> world"

definition fetch_url :: "http_request \<Rightarrow> world \<Rightarrow> http_response run" where
  "fetch_url rq w =
     (case script w of
        [] \<Rightarrow> (Inl NoResponse, w\<lparr>trace := trace w @ [rq]\<rparr>)
      | r # rs \<Rightarrow> (Inr r, \<lparr>script = rs, trace = trace w @ [rq]\<rparr>))"

definition fail_msg :: "string \<Rightarrow> outcome" where
  "fail_msg m = FailJson [(''msg'', PStr m)]"

section \<open>The endpoints\<close>

definition OLD_SLACK_INCOMING_WEBHOOK :: "string \<Rightarrow> string \<Rightarrow> string" where
  "OLD_SLACK_INCOMING_WEBHOOK d t =
     ''https://'' @ d @ ''/services/hooks/incoming-webhook?token='' @ t"

definition SLACK_INCOMING_WEBHOOK :: "string \<Rightarrow> string" where
  "SLACK_INCOMING_WEBHOOK t = ''https://hooks.slack.com/services/'' @ t"

definition SLACK_POSTMESSAGE_WEBAPI :: string where
  "SLACK_POSTMESSAGE_WEBAPI = ''https://slack.com/api/chat.postMessage''"

definition SLACK_UPDATEMESSAGE_WEBAPI :: string where
  "SLACK_UPDATEMESSAGE_WEBAPI = ''https://slack.com/api/chat.update''"

definition SLACK_CONVERSATIONS_HISTORY_WEBAPI :: string where
  "SLACK_CONVERSATIONS_HISTORY_WEBAPI = ''https://slack.com/api/conversations.history''"

definition SLACK_GET_UPLOAD_URL_EXTERNAL :: string where
  "SLACK_GET_UPLOAD_URL_EXTERNAL = ''https://slack.com/api/files.getUploadURLExternal''"

definition SLACK_COMPLETE_UPLOAD_EXTERNAL :: string where
  "SLACK_COMPLETE_UPLOAD_EXTERNAL = ''https://slack.com/api/files.completeUploadExternal''"

definition SLACK_CONVERSATIONS_LIST_WEBAPI :: string where
  "SLACK_CONVERSATIONS_LIST_WEBAPI = ''https://slack.com/api/conversations.list''"

section \<open>Regular expressions\<close>

text \<open>
  The class \<^verbatim>\<open>\s\<close> of a Python 3 string pattern, for code points below 256: tab to
  carriage return, the separators 0x1C to 0x1F, the space, 0x85 and 0xA0.
\<close>

definition is_space :: "char \<Rightarrow> bool" where
  "is_space c = (of_char c \<in> set [9, 10, 11, 12, 13, 28, 29, 30, 31, 32, 133, 160 :: nat])"

text \<open>
  In a Python pattern \<^verbatim>\<open>$\<close> matches at the end of the string and also just before a
  newline that ends the string. \<open>chomp\<close> takes that one newline away.
\<close>

definition chomp :: "string \<Rightarrow> string" where
  "chomp s = (if s \<noteq> [] \<and> last s = CHR 0x0A then butlast s else s)"

text \<open>\<^verbatim>\<open>re.match(r'^xox[abp]-\S+$', token)\<close>.\<close>

definition match_webapi_token :: "string \<Rightarrow> bool" where
  "match_webapi_token token =
     (take 3 token = ''xox'' \<and>
      (case drop 3 token of
         c # d # rest \<Rightarrow>
           c \<in> set ''abp'' \<and> d = CHR ''-'' \<and>
           chomp rest \<noteq> [] \<and> (\<forall>x \<in> set (chomp rest). \<not> is_space x)
       | _ \<Rightarrow> False))"

text \<open>
  Follows the spec's words, to be compared with \<open>match_webapi_token\<close>: the token is
  \<^verbatim>\<open>xox\<close>, then one of a, b, p, then \<^verbatim>\<open>-\<close>, then one or more non-whitespace characters.
\<close>

definition webapi_shape_spec :: "string \<Rightarrow> bool" where
  "webapi_shape_spec token =
     (take 3 token = ''xox'' \<and>
      (case drop 3 token of
         c # d # rest \<Rightarrow>
           c \<in> set ''abp'' \<and> d = CHR ''-'' \<and> rest \<noteq> [] \<and> (\<forall>x \<in> set rest. \<not> is_space x)
       | _ \<Rightarrow> False))"

definition is_hex_digit :: "char \<Rightarrow> bool" where
  "is_hex_digit c = (c \<in> set ''0123456789abcdefABCDEF'')"

text \<open>\<^verbatim>\<open>re.match(r'^#([A-Fa-f0-9]{6}|[A-Fa-f0-9]{3})$', color_choice)\<close>.\<close>

definition is_valid_hex_color :: "string \<Rightarrow> bool" where
  "is_valid_hex_color color_choice =
     (case chomp color_choice of
        [] \<Rightarrow> False
      | c # ds \<Rightarrow> c = CHR ''#'' \<and> (length ds = 6 \<or> length ds = 3) \<and> (\<forall>d \<in> set ds. is_hex_digit d))"

section \<open>The notifier\<close>

text \<open>
  The first part of \<^verbatim>\<open>do_notify_slack\<close>, the chain that selects the address and sets
  \<open>use_webapi\<close>. \<^verbatim>\<open>not domain\<close> holds for \<open>None\<close> and for the empty string.
\<close>

definition select_endpoint :: "string option \<Rightarrow> string \<Rightarrow> pydict \<Rightarrow> outcome + (string \<times> bool)" where
  "select_endpoint domain token payload =
     (if count_list token CHR ''/'' \<ge> 2 then Inr (SLACK_INCOMING_WEBHOOK token, False)
      else if match_webapi_token token then
        Inr (if has_key payload ''ts'' then SLACK_UPDATEMESSAGE_WEBAPI
             else SLACK_POSTMESSAGE_WEBAPI, True)
      else
        (case domain of
           None \<Rightarrow> Inl (fail_msg (''Slack has updated its webhook API.  You need to specify a token of the form '' @
                                  ''XXXX/YYYY/ZZZZ in your playbook''))
         | Some d \<Rightarrow>
             if d = [] then
               Inl (fail_msg (''Slack has updated its webhook API.  You need to specify a token of the form '' @
                              ''XXXX/YYYY/ZZZZ in your playbook''))
             else Inr (OLD_SLACK_INCOMING_WEBHOOK d token, False)))"

definition notify_headers :: "bool \<Rightarrow> string \<Rightarrow> (string \<times> string) list" where
  "notify_headers use_webapi token =
     [(''Content-Type'', ''application/json; charset=UTF-8''), (''Accept'', ''application/json'')]
     @ (if use_webapi then [(''Authorization'', ''Bearer '' @ token)] else [])"

definition do_notify_slack :: "env \<Rightarrow> string option \<Rightarrow> string \<Rightarrow> pydict \<Rightarrow> world \<Rightarrow> pyval run" where
  "do_notify_slack e domain token payload w =
     (case select_endpoint domain token payload of
        Inl out \<Rightarrow> (Inl out, w)
      | Inr (slack_uri, use_webapi) \<Rightarrow>
          (let headers = notify_headers use_webapi token;
               data = jsonify e (PDict payload)
           in case fetch_url \<lparr>rq_method = ''POST'', rq_url = slack_uri, rq_headers = headers,
                               rq_data = Some data\<rparr> w of
                (Inl out, w') \<Rightarrow> (Inl out, w')
              | (Inr resp, w') \<Rightarrow>
                  if rs_status resp \<noteq> 200 then
                    (let obscured_incoming_webhook =
                           (if use_webapi then slack_uri else SLACK_INCOMING_WEBHOOK ''[obscured]'')
                     in (Inl (fail_msg ('' failed to send '' @ data @ '' to '' @
                                         obscured_incoming_webhook @ '': '' @ rs_msg resp)), w'))
                  else if use_webapi then
                    (case from_json e (rs_body resp) of
                       None \<Rightarrow> (Inl (Raised ValueError), w')
                     | Some v \<Rightarrow> (Inr v, w'))
                  else (Inr (PDict [(''webhook'', PStr ''ok'')]), w')))"

section \<open>Fetching a message\<close>

text \<open>The checks of \<^verbatim>\<open>get_slack_message\<close> on the decoded answer.\<close>

definition single_message :: "env \<Rightarrow> pyval \<Rightarrow> string \<Rightarrow> outcome + pyval" where
  "single_message e data ts =
     (case py_get data ''ok'' of
        Inl x \<Rightarrow> Inl (Raised x)
      | Inr ok \<Rightarrow>
          if ok = PBool False then
            Inl (FailJson [(''msg'', PList [PStr ''failed to get slack message: '', data])])
          else
            (case py_item data ''messages'' of
               Inl x \<Rightarrow> Inl (Raised x)
             | Inr ms \<Rightarrow>
                 (case py_len ms of
                    Inl x \<Rightarrow> Inl (Raised x)
                  | Inr n \<Rightarrow>
                      if n < 1 then Inl (fail_msg (''no messages matching ts: '' @ ts))
                      else if n > 1 then Inl (fail_msg (''more than 1 message matching ts: '' @ ts))
                      else (case py_first ms of
                              Inl x \<Rightarrow> Inl (Raised x)
                            | Inr m \<Rightarrow> Inr m))))"

definition get_slack_message :: "env \<Rightarrow> string \<Rightarrow> string option \<Rightarrow> string \<Rightarrow> world \<Rightarrow> pyval run" where
  "get_slack_message e token channel ts w =
     (let headers = [(''Content-Type'', ''application/json; charset=UTF-8''),
                     (''Accept'', ''application/json''),
                     (''Authorization'', ''Bearer '' @ token)];
          qs = urlencode e [(''channel'', opt_str channel), (''ts'', PStr ts),
                            (''limit'', PInt 1), (''inclusive'', PStr ''true'')];
          url = SLACK_CONVERSATIONS_HISTORY_WEBAPI @ ''?'' @ qs
      in case fetch_url \<lparr>rq_method = ''GET'', rq_url = url, rq_headers = headers,
                          rq_data = None\<rparr> w of
           (Inl out, w') \<Rightarrow> (Inl out, w')
         | (Inr resp, w') \<Rightarrow>
             if rs_status resp \<noteq> 200 then (Inl (fail_msg ''failed to get slack message''), w')
             else (case from_json e (rs_body resp) of
                     None \<Rightarrow> (Inl (Raised ValueError), w')
                   | Some data \<Rightarrow>
                       (case single_message e data ts of
                          Inl out \<Rightarrow> (Inl out, w')
                        | Inr m \<Rightarrow> (Inr m, w'))))"

section \<open>The channel resolver\<close>

text \<open>
  The inner loop \<^verbatim>\<open>for channel in channels\<close>: the identifier of the first channel
  of the page with the wanted name, if there is one.
\<close>

fun find_channel :: "pyval list \<Rightarrow> pyval \<Rightarrow> py_error + pyval option" where
  "find_channel [] channel_name = Inr None"
| "find_channel (channel # channels) channel_name =
     (case py_get channel ''name'' of
        Inl x \<Rightarrow> Inl x
      | Inr n \<Rightarrow>
          if py_eq n channel_name then
            (case py_get channel ''id'' of Inl x \<Rightarrow> Inl x | Inr i \<Rightarrow> Inr (Some i))
          else find_channel channels channel_name)"

text \<open>
  What one page of the listing leads to: a failure or an exception, the channel found,
  or the cursor of the next page (a false cursor ends the loop).
\<close>

datatype page_step = Found pyval | Next pyval

definition read_page :: "pyval \<Rightarrow> pyval \<Rightarrow> outcome + page_step" where
  "read_page data channel_name =
     (case py_get data ''ok'' of
        Inl x \<Rightarrow> Inl (Raised x)
      | Inr ok \<Rightarrow>
          if \<not> truthy ok then
            (case py_get_default data ''error'' (PStr ''Unknown error'') of
               Inl x \<Rightarrow> Inl (Raised x)
             | Inr err \<Rightarrow> Inl (FailJson [(''msg'', PList [PStr ''Slack API error: '', err])]))
          else
            (case py_get_default data ''channels'' (PList []) of
               Inl x \<Rightarrow> Inl (Raised x)
             | Inr channels \<Rightarrow>
                 (case py_iter channels of
                    Inl x \<Rightarrow> Inl (Raised x)
                  | Inr chs \<Rightarrow>
                      (case find_channel chs channel_name of
                         Inl x \<Rightarrow> Inl (Raised x)
                       | Inr (Some i) \<Rightarrow> Inr (Found i)
                       | Inr None \<Rightarrow>
                           (case py_get_default data ''response_metadata'' (PDict []) of
                              Inl x \<Rightarrow> Inl (Raised x)
                            | Inr md \<Rightarrow>
                                (case py_get md ''next_cursor'' of
                                   Inl x \<Rightarrow> Inl (Raised x)
                                 | Inr cursor \<Rightarrow> Inr (Next cursor)))))))"

text \<open>
  \<^verbatim>\<open>get_channel_id\<close>: the loop \<^verbatim>\<open>while True\<close>, one request for each page. Every
  turn takes one response from the script, which is what ends the recursion. A message
  that formats a value with \<^verbatim>\<open>%s\<close> is kept as the list of its parts.
\<close>

function get_channel_id_loop ::
  "env \<Rightarrow> string \<Rightarrow> pyval \<Rightarrow> pydict \<Rightarrow> pyval \<Rightarrow> world \<Rightarrow> pyval run" where
  "get_channel_id_loop e token channel_name params cursor w =
     (let params = (if truthy cursor then dict_set params ''cursor'' cursor else params);
          query = urlencode e params;
          full_url = SLACK_CONVERSATIONS_LIST_WEBAPI @ ''?'' @ query
      in case fetch_url \<lparr>rq_method = ''GET'', rq_url = full_url,
                          rq_headers = [(''Authorization'', ''Bearer '' @ token)],
                          rq_data = None\<rparr> w of
           (Inl out, w') \<Rightarrow> (Inl out, w')
         | (Inr resp, w') \<Rightarrow>
             if rs_status resp \<noteq> 200 then
               (Inl (FailJson [(''msg'', PList [PStr ''Failed to retrieve channels: '',
                                  PStr (rs_msg resp), PStr '' (HTTP '', PInt (rs_status resp),
                                  PStr '')''])]), w')
             else
               (case from_json e (rs_body resp) of
                  None \<Rightarrow> (Inl (FailJson [(''msg'', PList [PStr ''JSON decode error: '',
                                               PStr (exc_str e ValueError)])]), w')
                | Some data \<Rightarrow>
                    (case read_page data channel_name of
                       Inl out \<Rightarrow> (Inl out, w')
                     | Inr (Found i) \<Rightarrow> (Inr i, w')
                     | Inr (Next c) \<Rightarrow>
                         if \<not> truthy c then
                           (Inl (FailJson [(''msg'', PList [PStr ''Channel named '', channel_name,
                                              PStr '' not found.''])]), w')
                         else get_channel_id_loop e token channel_name params c w')))"
  by pat_completeness auto
termination
  by (relation "measure (\<lambda>(e, token, channel_name, params, cursor, w). length (script w))")
     (auto simp add: fetch_url_def split: list.splits)

definition get_channel_id :: "env \<Rightarrow> string \<Rightarrow> pyval \<Rightarrow> world \<Rightarrow> pyval run" where
  "get_channel_id e token channel_name w =
     get_channel_id_loop e token channel_name
       [(''types'', PStr ''public_channel,private_channel,mpim,im''),
        (''limit'', PInt 1000),
        (''exclude_archived'', PStr ''true'')] PNone w"

section \<open>The file uploader\<close>

text \<open>\<^verbatim>\<open>if file_upload.get(k): d[k] = file_upload.get(k)\<close>.\<close>

definition copy_if_true :: "pydict \<Rightarrow> string \<Rightarrow> pydict \<Rightarrow> pydict" where
  "copy_if_true file_upload k d =
     (case map_of file_upload k of
        None \<Rightarrow> d
      | Some v \<Rightarrow> if truthy v then dict_set d k v else d)"

text \<open>
  \<^verbatim>\<open>json.load(response)\<close> under \<^verbatim>\<open>except ValueError\<close>, then the test of \<^verbatim>\<open>ok\<close>.
  \<^verbatim>\<open>json.load\<close> has read the response to its end, so the \<^verbatim>\<open>response.read()\<close> of the
  failure message returns the empty bytes.
\<close>

definition load_ok :: "env \<Rightarrow> http_response \<Rightarrow> (pyval \<Rightarrow> outcome) \<Rightarrow> outcome + pyval" where
  "load_ok e resp not_ok =
     (case from_json e (rs_body resp) of
        None \<Rightarrow> Inl (FailJson [(''msg'', PList [PStr ''The Slack API response is not valid JSON: '',
                                     PStr []])])
      | Some d \<Rightarrow>
          (case py_get d ''ok'' of
             Inl x \<Rightarrow> Inl (Raised x)
           | Inr ok \<Rightarrow> if \<not> truthy ok then Inl (not_ok d) else Inr d))"

definition http_error :: "string \<Rightarrow> http_response \<Rightarrow> outcome" where
  "http_error m resp =
     FailJson [(''msg'', PList [PStr m, PStr (rs_msg resp), PStr '' (HTTP '',
                                 PInt (rs_status resp), PStr '')''])]"

text \<open>
  The body of the \<^verbatim>\<open>try\<close> of \<^verbatim>\<open>upload_file_to_slack\<close>: the request for an upload
  address, the upload of the content, the resolution of the channel, the completion.
  \<open>path\<close> is a string, as the argument specification requires. The file is opened
  and read after the upload address has been obtained; IOError there is a failure of its own.
\<close>

definition upload_steps :: "env \<Rightarrow> string \<Rightarrow> pyval \<Rightarrow> pydict \<Rightarrow> world \<Rightarrow> pyval run" where
  "upload_steps e token channel file_upload w =
     (case map_of file_upload ''path'' of
        None \<Rightarrow> (Inl (Raised (KeyError ''path'')), w)
      | Some (PStr file_path) \<Rightarrow>
          (if \<not> path_exists e file_path then
             (Inl (fail_msg (''File not found: '' @ file_path)), w)
           else
               (let params = [(''filename'',
                                (case map_of file_upload ''filename'' of
                                   None \<Rightarrow> PStr (basename e file_path) | Some f \<Rightarrow> f)),
                              (''length'', PInt (getsize e file_path))];
                    params = copy_if_true file_upload ''alt_text'' params;
                    params = copy_if_true file_upload ''snippet_type'' params
                in case fetch_url
                       \<lparr>rq_method = ''GET'',
                        rq_url = SLACK_GET_UPLOAD_URL_EXTERNAL @ ''?'' @ urlencode e params,
                        rq_headers = [(''Authorization'', ''Bearer '' @ token),
                                      (''Content-Type'', ''application/x-www-form-urlencoded'')],
                        rq_data = None\<rparr> w of
                     (Inl out, w1) \<Rightarrow> (Inl out, w1)
                   | (Inr resp, w1) \<Rightarrow>
                       if rs_status resp \<noteq> 200 then
                         (Inl (http_error ''Error retrieving upload URL: '' resp), w1)
                       else
                         (case load_ok e resp
                                 (\<lambda>d. FailJson [(''msg'', PList [PStr ''Failed to retrieve upload URL: '',
                                                     (case py_get d ''error'' of Inr x \<Rightarrow> x | Inl _ \<Rightarrow> PNone)])]) of
                            Inl out \<Rightarrow> (Inl out, w1)
                          | Inr upload_url_data \<Rightarrow>
                              (case py_item upload_url_data ''upload_url'' of
                                 Inl x \<Rightarrow> (Inl (Raised x), w1)
                               | Inr (PStr upload_url) \<Rightarrow>
                                   (case py_item upload_url_data ''file_id'' of
                                      Inl x \<Rightarrow> (Inl (Raised x), w1)
                                    | Inr file_id \<Rightarrow>
                                      (case files e file_path of
                                         None \<Rightarrow>
                                           (Inl (fail_msg (''The file '' @ file_path @ '' is not found.'')), w1)
                                       | Some file_content \<Rightarrow>
                                        (case fetch_url
                                                \<lparr>rq_method = ''POST'', rq_url = upload_url,
                                                 rq_headers = [(''Content-Type'', ''application/octet-stream'')],
                                                 rq_data = Some file_content\<rparr> w1 of
                                           (Inl out, w2) \<Rightarrow> (Inl out, w2)
                                         | (Inr resp2, w2) \<Rightarrow>
                                             if rs_status resp2 \<noteq> 200 then
                                               (Inl (http_error ''Error during file upload: '' resp2), w2)
                                             else
                                               (case get_channel_id e token channel w2 of
                                                  (Inl out, w3) \<Rightarrow> (Inl out, w3)
                                                | (Inr channel_id, w3) \<Rightarrow>
                                                    (let file0 = [(''id'', file_id)];
                                                         file0 = copy_if_true file_upload ''title'' file0;
                                                         files_dict = [(''files'', PList [PDict file0]),
                                                                       (''channel_id'', channel_id)];
                                                         files_dict = copy_if_true file_upload ''initial_comment'' files_dict;
                                                         files_dict = copy_if_true file_upload ''thread_ts'' files_dict;
                                                         files_data = jsonify e (PDict files_dict)
                                                     in case fetch_url
                                                            \<lparr>rq_method = ''POST'',
                                                             rq_url = SLACK_COMPLETE_UPLOAD_EXTERNAL,
                                                             rq_headers = [(''Authorization'', ''Bearer '' @ token),
                                                                           (''Content-Type'', ''application/json'')],
                                                             rq_data = Some files_data\<rparr> w3 of
                                                          (Inl out, w4) \<Rightarrow> (Inl out, w4)
                                                        | (Inr resp3, w4) \<Rightarrow>
                                                            if rs_status resp3 \<noteq> 200 then
                                                              (Inl (http_error ''Error during upload completion: '' resp3), w4)
                                                            else
                                                              (case load_ok e resp3
                                                                      (\<lambda>d. FailJson [(''msg'', PList [PStr ''Failed to complete the upload: '', d])]) of
                                                                 Inl out \<Rightarrow> (Inl out, w4)
                                                               | Inr d \<Rightarrow> (Inr d, w4)))))))
                               | Inr _ \<Rightarrow> (Inl (Raised TypeError), w1)))))
      | Some _ \<Rightarrow> (Inl (Raised TypeError), w))"

text \<open>
  \<^verbatim>\<open>upload_file_to_slack\<close>: \<^verbatim>\<open>except Exception\<close> turns an exception of the body
  into a failure; an exit through \<^verbatim>\<open>fail_json\<close> passes.
\<close>

definition upload_file_to_slack :: "env \<Rightarrow> string \<Rightarrow> pyval \<Rightarrow> pydict \<Rightarrow> world \<Rightarrow> pyval run" where
  "upload_file_to_slack e token channel file_upload w =
     (case upload_steps e token channel file_upload w of
        (Inl (Raised x), w') \<Rightarrow>
          (Inl (fail_msg (''Error uploading file: '' @ exc_str e x)), w')
      | r \<Rightarrow> r)"

section \<open>The entry point\<close>

text \<open>
  \<^verbatim>\<open>module.params\<close> after the argument specification has been applied: \<open>token\<close> is
  required, every other parameter may be \<open>None\<close> (a default is replaced by an explicit
  null of the task).
\<close>

record params =
  p_domain :: "string option"
  p_token :: string
  p_msg :: "string option"
  p_channel :: "string option"
  p_thread_id :: "string option"
  p_username :: "string option"
  p_icon_url :: "string option"
  p_icon_emoji :: "string option"
  p_link_names :: "int option"
  p_parse :: "string option"
  p_color :: "string option"
  p_attachments :: "pydict list option"
  p_blocks :: "pyval list option"
  p_message_id :: "string option"
  p_prepend_hash :: "string option"
  p_upload_file :: "pydict option"

text \<open>\<^verbatim>\<open>module.params.get(key)\<close> for the keys of the comparison with a fetched message.\<close>

definition param_get :: "params \<Rightarrow> string \<Rightarrow> pyval" where
  "param_get p key =
     (if key = ''icon_url'' then opt_str (p_icon_url p)
      else if key = ''icon_emoji'' then opt_str (p_icon_emoji p)
      else if key = ''link_names'' then (case p_link_names p of None \<Rightarrow> PNone | Some n \<Rightarrow> PInt n)
      else if key = ''color'' then opt_str (p_color p)
      else if key = ''attachments'' then
        (case p_attachments p of None \<Rightarrow> PNone | Some as \<Rightarrow> PList (map PDict as))
      else if key = ''blocks'' then (case p_blocks p of None \<Rightarrow> PNone | Some bs \<Rightarrow> PList bs)
      else PNone)"

definition diff_keys :: "string list" where
  "diff_keys = [''icon_url'', ''icon_emoji'', ''link_names'', ''color'', ''attachments'', ''blocks'']"

text \<open>
  The loop \<^verbatim>\<open>for key in (...): if msg.get(key) != module.params.get(key): changed = True; break\<close>.
\<close>

fun message_changed :: "pyval \<Rightarrow> params \<Rightarrow> string list \<Rightarrow> py_error + bool" where
  "message_changed m p [] = Inr False"
| "message_changed m p (key # keys) =
     (case py_get m key of
        Inl x \<Rightarrow> Inl x
      | Inr v \<Rightarrow> if \<not> py_eq v (param_get p key) then Inr True else message_changed m p keys)"

definition color_choices :: "string list" where
  "color_choices = [''normal'', ''good'', ''warning'', ''danger'']"

text \<open>The end of \<^verbatim>\<open>main\<close>: the interpretation of the notifier's answer.\<close>

definition report :: "env \<Rightarrow> bool \<Rightarrow> pydict \<Rightarrow> pyval \<Rightarrow> outcome" where
  "report e changed payload slack_response =
     (case py_contains slack_response ''ok'' of
        Inl x \<Rightarrow> Raised x
      | Inr has_ok \<Rightarrow>
          if \<not> has_ok then ExitJson [(''msg'', PStr ''OK'')]
          else
            (case py_item slack_response ''ok'' of
               Inl x \<Rightarrow> Raised x
             | Inr ok \<Rightarrow>
                 if truthy ok then
                   (case py_item slack_response ''ts'' of
                      Inl x \<Rightarrow> Raised x
                    | Inr ts \<Rightarrow>
                        (case py_item slack_response ''channel'' of
                           Inl x \<Rightarrow> Raised x
                         | Inr ch \<Rightarrow>
                             ExitJson [(''changed'', PBool changed), (''ts'', ts), (''channel'', ch),
                                       (''api'', slack_response),
                                       (''payload'', PStr (jsonify e (PDict payload)))]))
                 else
                   (case py_item slack_response ''error'' of
                      Inl x \<Rightarrow> Raised x
                    | Inr err \<Rightarrow> FailJson [(''msg'', PStr ''Slack API error''), (''error'', err)])))"

text \<open>The message path of \<^verbatim>\<open>main\<close> from the construction of the payload on.\<close>

definition send_message :: "env \<Rightarrow> params \<Rightarrow> string option \<Rightarrow> bool \<Rightarrow> world \<Rightarrow> outcome \<times> world" where
  "send_message e p prepend_hash changed w =
     (case build_payload_for_slack (p_msg p) (p_channel p) (p_thread_id p) (p_username p)
             (p_icon_url p) (p_icon_emoji p) (p_link_names p) (p_parse p) (p_color p)
             (p_attachments p) (p_blocks p) (p_message_id p) prepend_hash of
        Inl x \<Rightarrow> (Raised x, w)
      | Inr (atts', payload) \<Rightarrow>
          (case do_notify_slack e (p_domain p) (p_token p) payload w of
             (Inl out, w') \<Rightarrow> (out, w')
           | (Inr slack_response, w') \<Rightarrow> (report e changed payload slack_response, w')))"

text \<open>
  \<^verbatim>\<open>main\<close> after the upload branch: the validation of the colour, the comparison
  with the message to edit, the dry run, the sending. The deprecation warning for a
  missing \<open>prepend_hash\<close> has no effect on the run and is left out. A colour of \<open>None\<close>
  makes \<^verbatim>\<open>re.match\<close> raise TypeError.
\<close>

definition main_message :: "env \<Rightarrow> bool \<Rightarrow> params \<Rightarrow> world \<Rightarrow> outcome \<times> world" where
  "main_message e check_mode p w =
     (let prepend_hash = (case p_prepend_hash p of None \<Rightarrow> Some ''auto'' | Some h \<Rightarrow> Some h)
      in case p_color p of
           None \<Rightarrow> (Raised TypeError, w)
         | Some color \<Rightarrow>
             if color \<notin> set color_choices \<and> \<not> is_valid_hex_color color then
               (FailJson [(''msg'', PList [PStr ''Color value specified should be either one of '',
                                            PList (map PStr color_choices),
                                            PStr '' or any valid hex value with length 3 or 6.''])], w)
             else
               (case p_message_id p of
                  Some message_id \<Rightarrow>
                    (case get_slack_message e (p_token p) (p_channel p) message_id w of
                       (Inl out, w') \<Rightarrow> (out, w')
                     | (Inr m, w') \<Rightarrow>
                         (case message_changed m p diff_keys of
                            Inl x \<Rightarrow> (Raised x, w')
                          | Inr changed \<Rightarrow>
                              if check_mode \<or> \<not> changed then
                                (case py_item m ''ts'' of
                                   Inl x \<Rightarrow> (Raised x, w')
                                 | Inr ts \<Rightarrow>
                                     (case py_item m ''channel'' of
                                        Inl x \<Rightarrow> (Raised x, w')
                                      | Inr ch \<Rightarrow>
                                          (ExitJson [(''changed'', PBool changed), (''ts'', ts),
                                                     (''channel'', ch)], w')))
                              else send_message e p prepend_hash changed w'))
                | None \<Rightarrow>
                    if check_mode then (ExitJson [(''changed'', PBool True)], w)
                    else send_message e p prepend_hash True w))"

text \<open>
  The upload branch of \<^verbatim>\<open>main\<close>: \<^verbatim>\<open>upload_file_to_slack\<close>, then \<^verbatim>\<open>exit_json\<close>,
  under \<^verbatim>\<open>except Exception\<close>. The branch has no test of \<open>check_mode\<close>.
\<close>

definition main_upload :: "env \<Rightarrow> params \<Rightarrow> pydict \<Rightarrow> world \<Rightarrow> outcome \<times> world" where
  "main_upload e p upload_file w =
     (case upload_file_to_slack e (p_token p) (opt_str (p_channel p)) upload_file w of
        (Inl (Raised x), w') \<Rightarrow> (fail_msg (''Failed to upload file: '' @ exc_str e x), w')
      | (Inl out, w') \<Rightarrow> (out, w')
      | (Inr upload_response, w') \<Rightarrow>
          (ExitJson [(''changed'', PBool True), (''msg'', PStr ''File uploaded successfully''),
                     (''upload_response'', upload_response)], w'))"

text \<open>\<^verbatim>\<open>main\<close>, with the module's parameters and its \<open>check_mode\<close>.\<close>

definition main :: "env \<Rightarrow> bool \<Rightarrow> params \<Rightarrow> world \<Rightarrow> outcome \<times> world" where
  "main e check_mode p w =
     (case p_upload_file p of
        None \<Rightarrow> main_message e check_mode p w
      | Some upload_file \<Rightarrow>
          if upload_file \<noteq> [] then main_upload e p upload_file w
          else main_message e check_mode p w)"

section \<open>An environment for the examples\<close>

text \<open>
  A fixed environment, used where a statement is checked on a concrete run: three texts
  decode to the answers of the upload interface, two to answers of the history
  interface, every other text is not JSON, and the one file that exists is \<^verbatim>\<open>/tmp/report.txt\<close>.
\<close>

definition example_env :: env where
  "example_env =
     \<lparr>jsonify = (\<lambda>v. ''<json>''),
      from_json = (\<lambda>s.
        if s = ''<upload url>'' then
          Some (PDict [(''ok'', PBool True),
                       (''upload_url'', PStr ''https://files.slack.com/upload/v1/abc''),
                       (''file_id'', PStr ''F123'')])
        else if s = ''<channels>'' then
          Some (PDict [(''ok'', PBool True),
                       (''channels'', PList [PDict [(''id'', PStr ''C024'') , (''name'', PStr ''ansible'')]])])
        else if s = ''<done>'' then Some (PDict [(''ok'', PBool True)])
        else if s = ''<message>'' then
          Some (PDict [(''ok'', PBool True),
                       (''messages'', PList [PDict [(''ts'', PStr ''1503435956.000247''),
                                                    (''channel'', PStr ''C024''),
                                                    (''text'', PStr ''old text''),
                                                    (''color'', PStr ''normal'')]])])
        else if s = ''<message without channel>'' then
          Some (PDict [(''ok'', PBool True),
                       (''messages'', PList [PDict [(''ts'', PStr ''1503435956.000247''),
                                                    (''text'', PStr ''old text''),
                                                    (''color'', PStr ''normal'')]])])
        else None),
      urlencode = (\<lambda>ps. ''<query>''),
      exc_str = (\<lambda>x. ''<exception>''),
      path_exists = (\<lambda>p. p = ''/tmp/report.txt''),
      getsize = (\<lambda>p. 6),
      files = (\<lambda>p. if p = ''/tmp/report.txt'' then Some ''report'' else None),
      basename = (\<lambda>p. ''report.txt'')\<rparr>"

text \<open>The parameters of a task that sets nothing but the token and the colour.\<close>

definition example_params :: params where
  "example_params =
     \<lparr>p_domain = None, p_token = ''xoxb-1234'', p_msg = None, p_channel = None,
      p_thread_id = None, p_username = None, p_icon_url = None, p_icon_emoji = None,
      p_link_names = None, p_parse = None, p_color = Some ''normal'', p_attachments = None,
      p_blocks = None, p_message_id = None, p_prepend_hash = None, p_upload_file = None\<rparr>"

definition ok_response :: "string \<Rightarrow> http_response" where
  "ok_response b = \<lparr>rs_status = 200, rs_msg = ''OK'', rs_body = b\<rparr>"

section \<open>Objects in a store\<close>

text \<open>
  To see what a function does to the objects of its caller, dictionaries and lists are
  objects of a store and a value holds a reference to them. The store is the list of
  its objects, an address is a position in it, and a new object goes to the end.
  None, booleans, integers and strings are immutable and stand for themselves.
\<close>

datatype hval = HNone | HBool bool | HInt int | HStr string | HRef nat

datatype hobj = HDict "(string \<times> hval) list" | HList "hval list"

type_synonym heap = "hobj list"





text \<open>
  What the statements about the store speak of: the values an object holds; a value
  that is no reference to an object below the address \<open>n\<close> (an immutable value, or a
  reference to an object made after the store had \<open>n\<close> objects).
\<close>

fun vals :: "hobj \<Rightarrow> hval list" where
  "vals (HDict kvs) = map snd kvs"
| "vals (HList vs) = vs"

fun fresh :: "nat \<Rightarrow> hval \<Rightarrow> bool" where
  "fresh n (HRef b) = (n \<le> b)"
| "fresh n v = True"

text \<open>
  \<open>adds_new_objects h h'\<close>: the store \<open>h'\<close> is the store \<open>h\<close>, every object of it as it
  was, followed by objects that hold no reference to an object of \<open>h\<close>.
\<close>

definition adds_new_objects :: "heap \<Rightarrow> heap \<Rightarrow> bool" where
  "adds_new_objects h h' =
     (take (length h) h' = h \<and>
      list_all (\<lambda>ob. list_all (fresh (length h)) (vals ob)) (drop (length h) h'))"


section \<open>The loop over the attachments, in the store\<close>












section \<open>Dictionaries and escaping\<close>

lemma escape_char_id: "escape_char c = [c]"
  by (simp add: escape_char_def escape_table_def)

lemma escape_str_id: "escape_str t = t"
  by (induction t) (simp_all add: escape_str_def escape_char_id)

lemma map_of_dict_set: "map_of (dict_set d k v) k' = (if k' = k then Some v else map_of d k')"
  by (induction d k v rule: dict_set.induct) auto

lemma has_key_dict_set: "has_key (dict_set d k v) k' = (k' = k \<or> has_key d k')"
  by (simp add: has_key_def map_of_dict_set)

lemma dict_set_twice: "dict_set (dict_set d k v) k w = dict_set d k w"
  by (induction d k v rule: dict_set.induct) auto

lemma dict_set_same: "map_of d k = Some v \<Longrightarrow> dict_set d k v = d"
  by (induction d k v rule: dict_set.induct) (auto split: if_splits)


section \<open>The blocks of the payload builder\<close>

lemma map_of_set_some:
  "map_of (set_some p k x) k' = (if k' = k \<and> x \<noteq> None then x else map_of p k')"
  by (cases x) (simp_all add: set_some_def map_of_dict_set)

lemma map_of_set_channel:
  "k' \<noteq> ''channel'' \<Longrightarrow> map_of (set_channel p ch ph) k' = map_of p k'"
  by (cases ch) (simp_all add: set_channel_def map_of_dict_set)

lemma map_of_set_icon:
  "k' \<noteq> ''icon_emoji'' \<Longrightarrow> k' \<noteq> ''icon_url'' \<Longrightarrow> map_of (set_icon p ie iu) k' = map_of p k'"
  by (cases ie) (simp_all add: set_icon_def map_of_dict_set)

lemma map_of_init_attachments:
  "map_of (init_attachments p atts) k' =
     (if k' = ''attachments'' \<and> atts \<noteq> None \<and> map_of p k' = None then Some (PList [])
      else map_of p k')"
  by (cases atts) (auto simp add: init_attachments_def map_of_dict_set has_key_def)

lemma payload_head_text:
  "map_of (payload_head text channel thread_id username icon_url icon_emoji link_names
     parse color attachments message_id prepend_hash) ''text'' =
   (case text of None \<Rightarrow> None
    | Some t \<Rightarrow> if color = Some ''normal'' then Some (PStr (escape_str t)) else None)"
  unfolding payload_head_def Let_def
  by (simp add: map_of_set_some map_of_set_channel map_of_set_icon map_of_init_attachments
        text_payload_def split: option.split)

lemma payload_head_attachments:
  "map_of (payload_head text channel thread_id username icon_url icon_emoji link_names
     parse color attachments message_id prepend_hash) ''attachments'' =
   (case text of
      None \<Rightarrow> (case attachments of None \<Rightarrow> None | Some _ \<Rightarrow> Some (PList []))
    | Some t \<Rightarrow>
        if color = Some ''normal'' then (case attachments of None \<Rightarrow> None | Some _ \<Rightarrow> Some (PList []))
        else Some (PList [text_attachment t color]))"
  unfolding payload_head_def Let_def
  by (simp add: map_of_set_some map_of_set_channel map_of_set_icon map_of_init_attachments
        text_payload_def split: option.split)

lemma payload_head_attachments_list:
  "attachments \<noteq> None \<Longrightarrow>
   map_of (payload_head text channel thread_id username icon_url icon_emoji link_names
     parse color attachments message_id prepend_hash) ''attachments'' =
   Some (PList (case text of None \<Rightarrow> []
                | Some t \<Rightarrow> if color = Some ''normal'' then [] else [text_attachment t color]))"
  by (auto simp add: payload_head_attachments split: option.split)

section \<open>The loop over the attachments\<close>

lemma attachments_loop_eq:
  "map_of payload ''attachments'' = Some (PList xs) \<Longrightarrow>
   attachments_loop as payload =
     (case map_err process_attachment as of
        Inl e \<Rightarrow> Inl e
      | Inr as' \<Rightarrow> Inr (as', dict_set payload ''attachments'' (PList (xs @ map PDict as'))))"
proof (induction as arbitrary: payload xs)
  case Nil
  then show ?case by (simp add: dict_set_same)
next
  case (Cons a as)
  show ?case
  proof (cases "process_attachment a")
    case (Inl e)
    then show ?thesis by simp
  next
    case (Inr a')
    let ?p = "dict_set payload ''attachments'' (PList (xs @ [PDict a']))"
    have la: "list_append payload ''attachments'' (PDict a') = Inr ?p"
      using Cons.prems by (simp add: list_append_def)
    have mp: "map_of ?p ''attachments'' = Some (PList (xs @ [PDict a']))"
      by (simp add: map_of_dict_set)
    have ih: "attachments_loop as ?p =
        (case map_err process_attachment as of
           Inl e \<Rightarrow> Inl e
         | Inr as' \<Rightarrow> Inr (as', dict_set payload ''attachments'' (PList (xs @ PDict a' # map PDict as'))))"
      by (simp add: Cons.IH[OF mp] dict_set_twice split: sum.split)
    show ?thesis
      by (simp only: attachments_loop.simps map_err.simps Inr la ih sum.case)
         (simp split: sum.split)
  qed
qed

lemma build_payload_None:
  "build_payload_for_slack text channel thread_id username icon_url icon_emoji link_names
     parse color None blocks message_id prepend_hash =
   Inr (None, set_some (payload_head text channel thread_id username icon_url icon_emoji
          link_names parse color None message_id prepend_hash) ''blocks''
          (map_option (\<lambda>bs. recursive_escape_quotes (PList bs) block_keys_to_escape) blocks))"
  by (simp add: build_payload_for_slack_def set_some_def split: option.split)

lemma build_payload_Some:
  "build_payload_for_slack text channel thread_id username icon_url icon_emoji link_names
     parse color (Some as) blocks message_id prepend_hash =
   (case map_err process_attachment as of
      Inl e \<Rightarrow> Inl e
    | Inr as' \<Rightarrow>
        Inr (Some as',
             set_some (dict_set (payload_head text channel thread_id username icon_url icon_emoji
                 link_names parse color (Some as) message_id prepend_hash) ''attachments''
                 (PList ((case text of None \<Rightarrow> []
                          | Some t \<Rightarrow> if color = Some ''normal'' then [] else [text_attachment t color])
                         @ map PDict as')))
               ''blocks''
               (map_option (\<lambda>bs. recursive_escape_quotes (PList bs) block_keys_to_escape) blocks)))"
proof -
  have h: "map_of (payload_head text channel thread_id username icon_url icon_emoji
                 link_names parse color (Some as) message_id prepend_hash) ''attachments'' =
        Some (PList (case text of None \<Rightarrow> []
                | Some t \<Rightarrow> if color = Some ''normal'' then [] else [text_attachment t color]))"
    by (rule payload_head_attachments_list) simp
  show ?thesis
    unfolding build_payload_for_slack_def Let_def
    by (simp add: attachments_loop_eq[OF h] set_some_def split: sum.split option.split)
qed

section \<open>Escaping of the message text\<close>

text \<open>
  Claim C1. The claim: the builder puts a backslash before every apostrophe and every
  double quote of the text; for the text \<^verbatim>\<open>it's "ok"\<close> and the colour \<^verbatim>\<open>normal\<close> the
  field \<^verbatim>\<open>text\<close> is \<^verbatim>\<open>it\'s \"ok\"\<close>. The code does not: both values of
  \<open>escape_table\<close> are the quote character alone, so the text comes out as it went in.
  The theorem evaluates the builder at that input: the field \<^verbatim>\<open>text\<close> is the text
  given, without any backslash (code 0x5C).
\<close>

theorem C1_quotes_not_escaped:
  "build_payload_for_slack
     (Some [CHR ''i'', CHR ''t'', CHR 0x27, CHR ''s'', CHR '' '', CHR 0x22, CHR ''o'', CHR ''k'', CHR 0x22])
     None None None None None None None (Some ''normal'') None None None None =
   Inr (None,
        [(''text'', PStr [CHR ''i'', CHR ''t'', CHR 0x27, CHR ''s'', CHR '' '', CHR 0x22,
                          CHR ''o'', CHR ''k'', CHR 0x22]),
         (''icon_url'', PNone)])"
  by (simp add: build_payload_for_slack_def payload_head_def text_payload_def set_channel_def
        set_some_def set_icon_def init_attachments_def opt_str_def escape_str_id)

section \<open>Fields left unset\<close>

text \<open>
  Claim C3. The claim: no key of the payload is ever bound to None, the key
  \<^verbatim>\<open>icon_url\<close> included when neither icon is given. The code binds \<^verbatim>\<open>icon_url\<close>
  without a test in the \<^verbatim>\<open>else\<close> branch of \<^verbatim>\<open>icon_emoji\<close>, where every other
  optional field is tested first. The theorem evaluates the builder with every optional
  parameter unset: the payload binds \<^verbatim>\<open>icon_url\<close> to None.
\<close>

theorem C3_icon_url_bound_to_None:
  "build_payload_for_slack None None None None None None None None (Some ''normal'')
     None None None None = Inr (None, [(''icon_url'', PNone)])"
  by (simp add: build_payload_for_slack_def payload_head_def text_payload_def set_channel_def
        set_some_def set_icon_def init_attachments_def opt_str_def)

section \<open>One attachment\<close>

lemma map_err_table_get_error: "map_err table_get xs = Inl e \<Longrightarrow> e = TypeError"
proof (induction xs)
  case Nil
  then show ?case by simp
next
  case (Cons x xs)
  then show ?case by (cases x) (auto split: sum.splits)
qed

lemma str_join_error: "str_join xs = Inl e \<Longrightarrow> e = TypeError"
  by (induction xs rule: str_join.induct) (auto split: sum.splits)

lemma escape_quotes_error: "escape_quotes v = Inl e \<Longrightarrow> e = TypeError"
  by (cases v) (auto split: sum.splits dest: map_err_table_get_error str_join_error)

lemma escape_attachment_keys_error:
  "escape_attachment_keys ks a = Inl e \<Longrightarrow> e = TypeError"
  by (induction ks a rule: escape_attachment_keys.induct)
     (auto split: option.splits sum.splits dest: escape_quotes_error)

lemma escape_attachment_keys_has_key:
  "escape_attachment_keys ks a = Inr a' \<Longrightarrow> has_key a' k = has_key a k"
proof (induction ks a rule: escape_attachment_keys.induct)
  case (1 a)
  then show ?case by simp
next
  case (2 key keys a)
  show ?case
  proof (cases "map_of a key")
    case None
    with 2 show ?thesis by simp
  next
    case (Some v)
    with "2.prems" obtain v' where v': "escape_quotes v = Inr v'"
      and r: "escape_attachment_keys keys (dict_set a key v') = Inr a'"
      by (auto split: sum.splits)
    from "2.IH"(2)[OF Some v' r] have "has_key a' k = has_key (dict_set a key v') k" .
    moreover have "has_key a key" using Some by (simp add: has_key_def)
    ultimately show ?thesis by (auto simp add: has_key_dict_set)
  qed
qed

lemma escape_attachment_keys_str_fields:
  "str_fields ks a \<Longrightarrow> escape_attachment_keys ks a = Inr a"
proof (induction ks)
  case Nil
  then show ?case by simp
next
  case (Cons key ks)
  from Cons.prems have rest: "str_fields ks a" by (simp add: str_fields_def)
  show ?case
  proof (cases "map_of a key")
    case None
    with Cons.IH[OF rest] show ?thesis by simp
  next
    case (Some v)
    with Cons.prems obtain s where v: "v = PStr s"
      by (cases v) (auto simp add: str_fields_def)
    have "dict_set a key (PStr s) = a" using Some v by (simp add: dict_set_same)
    with Some v Cons.IH[OF rest] show ?thesis by (simp add: escape_str_id)
  qed
qed

lemma process_attachment_str_fields:
  "str_fields attachment_keys_to_escape a \<Longrightarrow>
   process_attachment a =
     (if has_key a ''fallback'' then Inr a
      else (case map_of a ''text'' of
              None \<Rightarrow> Inl (KeyError ''text'')
            | Some t \<Rightarrow> Inr (dict_set a ''fallback'' t)))"
  by (simp add: process_attachment_def escape_attachment_keys_str_fields)

lemma process_attachment_error:
  "process_attachment a = Inl e \<Longrightarrow> e = KeyError ''text'' \<or> e = TypeError"
  by (auto simp add: process_attachment_def split: sum.splits if_splits option.splits
        dest: escape_attachment_keys_error)

lemma process_attachment_no_text:
  assumes "\<not> has_key a ''fallback''" and "\<not> has_key a ''text''"
  shows "process_attachment a = Inl (KeyError ''text'') \<or> process_attachment a = Inl TypeError"
proof (cases "escape_attachment_keys attachment_keys_to_escape a")
  case (Inl e)
  then show ?thesis
    by (auto simp add: process_attachment_def dest: escape_attachment_keys_error)
next
  case (Inr a')
  have "\<not> has_key a' ''fallback''" and "\<not> has_key a' ''text''"
    using assms escape_attachment_keys_has_key[OF Inr] by simp_all
  with Inr show ?thesis by (simp add: process_attachment_def has_key_def)
qed

lemma map_err_Inl:
  "a \<in> set as \<Longrightarrow> f a = Inl e0 \<Longrightarrow> \<exists>b e. b \<in> set as \<and> f b = Inl e \<and> map_err f as = Inl e"
proof (induction as)
  case Nil
  then show ?case by simp
next
  case (Cons x xs)
  show ?case
  proof (cases "f x")
    case (Inl e)
    then show ?thesis by auto
  next
    case (Inr y)
    with Cons.prems have "a \<in> set xs" by auto
    from Cons.IH[OF this Cons.prems(2)] obtain b e
      where "b \<in> set xs" "f b = Inl e" "map_err f xs = Inl e" by blast
    with Inr show ?thesis by auto
  qed
qed

lemma map_err_Inr:
  "\<forall>a \<in> set as. f a = Inr (g a) \<Longrightarrow> map_err f as = Inr (map g as)"
  by (induction as) simp_all

section \<open>Colour and text\<close>

text \<open>
  Claim C6, the claim as it stands fails. With the text \<^verbatim>\<open>x\<close>, the colour
  \<^verbatim>\<open>normal\<close> and an attachment that has a title and neither \<^verbatim>\<open>fallback\<close> nor
  \<^verbatim>\<open>text\<close>, the loop over the attachments raises KeyError: no payload is returned,
  so the text is in no payload.
\<close>

theorem C6_counterexample:
  "build_payload_for_slack (Some ''x'') None None None None None None None (Some ''normal'')
     (Some [[(''title'', PStr ''t'')]]) None None None = Inl (KeyError ''text'')"
  by (simp add: build_payload_Some process_attachment_def attachment_keys_to_escape_def
        has_key_def escape_str_id)

text \<open>
  Claim C6, amended. For every text that is not None, and whatever the other arguments
  are, when the loop over the attachments raises nothing (\<open>as'\<close> are the caller's
  attachments as the loop leaves them; without attachments there is no loop): the call
  returns a payload. If the colour is \<^verbatim>\<open>normal\<close> the payload has the text, as
  \<^verbatim>\<open>escape_quotes\<close> returns it, under \<^verbatim>\<open>text\<close>, and its attachment list, if it has
  one, holds the caller's attachments only. For any other colour the payload has no key
  \<^verbatim>\<open>text\<close>, and its attachment list starts with one attachment of the three fields
  \<^verbatim>\<open>text\<close>, \<^verbatim>\<open>color\<close> and \<^verbatim>\<open>mrkdwn_in = ["text"]\<close>, followed by the caller's
  attachments.
\<close>

theorem C6_color_handling:
  assumes "map_err process_attachment (case attachments of None \<Rightarrow> [] | Some as \<Rightarrow> as) = Inr as'"
  shows "\<exists>p. build_payload_for_slack (Some t) channel thread_id username icon_url icon_emoji
                link_names parse color attachments blocks message_id prepend_hash
              = Inr (map_option (\<lambda>_. as') attachments, p) \<and>
             (color = Some ''normal'' \<longrightarrow>
                map_of p ''text'' = Some (PStr (escape_str t)) \<and>
                map_of p ''attachments'' = map_option (\<lambda>_. PList (map PDict as')) attachments) \<and>
             (color \<noteq> Some ''normal'' \<longrightarrow>
                map_of p ''text'' = None \<and>
                map_of p ''attachments'' =
                  Some (PList (PDict [(''text'', PStr (escape_str t)), (''color'', opt_str color),
                                      (''mrkdwn_in'', PList [PStr ''text''])] # map PDict as')))"
proof (cases attachments)
  case None
  with assms have "as' = []" by simp
  with None show ?thesis
    by (simp add: build_payload_None map_of_set_some payload_head_text
          payload_head_attachments text_attachment_def)
next
  case (Some as)
  with assms have "map_err process_attachment as = Inr as'" by simp
  with Some show ?thesis
    by (simp add: build_payload_Some map_of_set_some map_of_dict_set payload_head_text
          text_attachment_def)
qed

theorem C6_color_handling_witness:
  "(\<exists>p. build_payload_for_slack (Some ''x'') None None None None None None None
           (Some ''#ff00aa'') (Some [[(''text'', PStr ''a'')]]) None None None =
           Inr (Some [[(''text'', PStr ''a''), (''fallback'', PStr ''a'')]], p) \<and>
         map_of p ''text'' = None \<and>
         map_of p ''attachments'' =
           Some (PList [PDict [(''text'', PStr ''x''), (''color'', PStr ''#ff00aa''),
                               (''mrkdwn_in'', PList [PStr ''text''])],
                        PDict [(''text'', PStr ''a''), (''fallback'', PStr ''a'')]])) \<and>
   (\<exists>p. build_payload_for_slack (Some ''x'') None None None None None None None
           (Some ''normal'') (Some [[(''text'', PStr ''a'')]]) None None None =
           Inr (Some [[(''text'', PStr ''a''), (''fallback'', PStr ''a'')]], p) \<and>
         map_of p ''text'' = Some (PStr ''x'') \<and>
         map_of p ''attachments'' =
           Some (PList [PDict [(''text'', PStr ''a''), (''fallback'', PStr ''a'')]])) \<and>
   (\<exists>p. build_payload_for_slack (Some ''x'') None None None None None None None
           (Some ''normal'') None None None None = Inr (None, p) \<and>
         map_of p ''text'' = Some (PStr ''x'') \<and> map_of p ''attachments'' = None)"
proof -
  have pa: "map_err process_attachment
              (case Some [[(''text'', PStr ''a'')]] of None \<Rightarrow> [] | Some as \<Rightarrow> as) =
            Inr [[(''text'', PStr ''a''), (''fallback'', PStr ''a'')]]"
    by (simp add: process_attachment_def attachment_keys_to_escape_def has_key_def
          escape_str_id)
  have no: "map_err process_attachment
              (case None :: pydict list option of None \<Rightarrow> [] | Some as \<Rightarrow> as) = Inr []"
    by simp
  from C6_color_handling [OF pa, of "''x''" None None None None None None None
         "Some ''#ff00aa''" None None None]
       C6_color_handling [OF pa, of "''x''" None None None None None None None
         "Some ''normal''" None None None]
       C6_color_handling [OF no, of "''x''" None None None None None None None
         "Some ''normal''" None None None]
  show ?thesis
    by (simp add: escape_str_id opt_str_def)
qed

section \<open>The fallback of an attachment\<close>

text \<open>
  Claim C7, the claim as it stands fails. An attachment with a title and neither
  \<^verbatim>\<open>fallback\<close> nor \<^verbatim>\<open>text\<close> gets no fallback: the lookup \<^verbatim>\<open>attachment['text']\<close>
  raises KeyError and no payload is built.
\<close>

theorem C7_counterexample:
  "\<not> has_key [(''title'', PStr ''t'')] ''fallback'' \<and>
   build_payload_for_slack None None None None None None None None (Some ''normal'')
     (Some [[(''title'', PStr ''t'')]]) None None None = Inl (KeyError ''text'')"
  by (simp add: build_payload_Some process_attachment_def attachment_keys_to_escape_def
        has_key_def escape_str_id)

text \<open>
  Claim C7, amended. Let every attachment of the list have strings under the keys
  \<^verbatim>\<open>title\<close>, \<^verbatim>\<open>text\<close>, \<^verbatim>\<open>author_name\<close>, \<^verbatim>\<open>pretext\<close>, \<^verbatim>\<open>fallback\<close> it has, and
  have a \<^verbatim>\<open>fallback\<close> or a \<^verbatim>\<open>text\<close>. Then the call returns a payload whose
  attachment list is the attachment for a coloured text, if there is one, followed by
  the caller's attachments as the loop leaves them, and for each of them: every key
  other than the five is bound as before; a value under one of the five keys is replaced
  by what \<^verbatim>\<open>escape_quotes\<close> returns for it (so a given fallback is kept, escaped); and
  an attachment that had no \<^verbatim>\<open>fallback\<close> has one, equal to its \<^verbatim>\<open>text\<close> after
  escaping.
\<close>

theorem C7_fallback_from_text:
  assumes "\<forall>a \<in> set as. str_fields attachment_keys_to_escape a \<and>
                         (has_key a ''fallback'' \<or> has_key a ''text'')"
  shows "\<exists>as' p.
           build_payload_for_slack text channel thread_id username icon_url icon_emoji
             link_names parse color (Some as) blocks message_id prepend_hash = Inr (Some as', p) \<and>
           map_of p ''attachments'' =
             Some (PList ((case text of None \<Rightarrow> []
                           | Some t \<Rightarrow> if color = Some ''normal'' then []
                                       else [text_attachment t color]) @ map PDict as')) \<and>
           length as' = length as \<and>
           (\<forall>i < length as.
              (\<forall>k. k \<notin> set attachment_keys_to_escape \<longrightarrow> map_of (as' ! i) k = map_of (as ! i) k) \<and>
              (\<forall>k \<in> set attachment_keys_to_escape. \<forall>v. map_of (as ! i) k = Some v \<longrightarrow>
                 (\<exists>v'. escape_quotes v = Inr v' \<and> map_of (as' ! i) k = Some v')) \<and>
              (\<not> has_key (as ! i) ''fallback'' \<longrightarrow>
                 has_key (as' ! i) ''fallback'' \<and>
                 map_of (as' ! i) ''fallback'' = map_of (as' ! i) ''text''))"
proof -
  define g where "g a = (if has_key a ''fallback'' then a
                         else dict_set a ''fallback'' (case map_of a ''text'' of Some t \<Rightarrow> t | None \<Rightarrow> PNone))"
    for a :: pydict
  have pa: "process_attachment a = Inr (g a)" if "a \<in> set as" for a
    using assms that
    by (auto simp add: process_attachment_str_fields g_def has_key_def)
  then have me: "map_err process_attachment as = Inr (map g as)"
    by (simp add: map_err_Inr)
  have fb: "''fallback'' \<in> set attachment_keys_to_escape"
    by (simp add: attachment_keys_to_escape_def)
  have props:
    "(\<forall>k. k \<notin> set attachment_keys_to_escape \<longrightarrow> map_of (g a) k = map_of a k) \<and>
     (\<forall>k \<in> set attachment_keys_to_escape. \<forall>v. map_of a k = Some v \<longrightarrow>
        (\<exists>v'. escape_quotes v = Inr v' \<and> map_of (g a) k = Some v')) \<and>
     (\<not> has_key a ''fallback'' \<longrightarrow>
        has_key (g a) ''fallback'' \<and> map_of (g a) ''fallback'' = map_of (g a) ''text'')"
    if a: "a \<in> set as" for a
  proof (intro conjI allI impI ballI)
    fix k assume "k \<notin> set attachment_keys_to_escape"
    with fb have "k \<noteq> ''fallback''" by auto
    then show "map_of (g a) k = map_of a k" by (simp add: g_def map_of_dict_set)
  next
    fix k v assume k: "k \<in> set attachment_keys_to_escape" and v: "map_of a k = Some v"
    from assms a have "str_fields attachment_keys_to_escape a" by simp
    with k v obtain s where s: "v = PStr s"
      by (cases v) (auto simp add: str_fields_def)
    have "map_of (g a) k = Some v"
      using v by (auto simp add: g_def map_of_dict_set has_key_def)
    with s show "\<exists>v'. escape_quotes v = Inr v' \<and> map_of (g a) k = Some v'"
      by (simp add: escape_str_id)
  next
    assume nf: "\<not> has_key a ''fallback''"
    with assms a have "has_key a ''text''" by auto
    then obtain t where t: "map_of a ''text'' = Some t" by (auto simp add: has_key_def)
    from nf t show "has_key (g a) ''fallback''"
      by (simp add: g_def has_key_dict_set)
    from nf t show "map_of (g a) ''fallback'' = map_of (g a) ''text''"
      by (simp add: g_def map_of_dict_set)
  qed
  have "\<forall>i < length as. as ! i \<in> set as" by simp
  with props have all:
    "\<forall>i < length as.
       (\<forall>k. k \<notin> set attachment_keys_to_escape \<longrightarrow> map_of (map g as ! i) k = map_of (as ! i) k) \<and>
       (\<forall>k \<in> set attachment_keys_to_escape. \<forall>v. map_of (as ! i) k = Some v \<longrightarrow>
          (\<exists>v'. escape_quotes v = Inr v' \<and> map_of (map g as ! i) k = Some v')) \<and>
       (\<not> has_key (as ! i) ''fallback'' \<longrightarrow>
          has_key (map g as ! i) ''fallback'' \<and>
          map_of (map g as ! i) ''fallback'' = map_of (map g as ! i) ''text'')"
    by simp
  have bp: "build_payload_for_slack text channel thread_id username icon_url icon_emoji
             link_names parse color (Some as) blocks message_id prepend_hash =
        Inr (Some (map g as),
             set_some (dict_set (payload_head text channel thread_id username icon_url icon_emoji
                 link_names parse color (Some as) message_id prepend_hash) ''attachments''
                 (PList ((case text of None \<Rightarrow> []
                          | Some t \<Rightarrow> if color = Some ''normal'' then [] else [text_attachment t color])
                         @ map PDict (map g as))))
               ''blocks''
               (map_option (\<lambda>bs. recursive_escape_quotes (PList bs) block_keys_to_escape) blocks))"
    by (simp add: build_payload_Some me)
  show ?thesis
    apply (rule exI[where x = "map g as"])
    apply (rule exI)
    apply (rule conjI[OF bp])
    apply (rule conjI)
     apply (simp add: map_of_set_some map_of_dict_set)
    apply (rule conjI)
     apply simp
    apply (rule all)
    done
qed

theorem C7_fallback_from_text_witness:
  "\<exists>as' p.
     build_payload_for_slack None None None None None None None None (Some ''normal'')
       (Some [[(''text'', PStr ''a''), (''ts'', PInt 3)], [(''fallback'', PStr ''f'')]])
       None None None = Inr (Some as', p) \<and>
     map_of p ''attachments'' = Some (PList (map PDict as')) \<and>
     length as' = 2 \<and>
     map_of (as' ! 0) ''fallback'' = map_of (as' ! 0) ''text'' \<and>
     map_of (as' ! 0) ''text'' = Some (PStr ''a'') \<and>
     map_of (as' ! 0) ''ts'' = Some (PInt 3) \<and>
     map_of (as' ! 1) ''fallback'' = Some (PStr ''f'')"
proof -
  let ?as = "[[(''text'', PStr ''a''), (''ts'', PInt 3)], [(''fallback'', PStr ''f'')]]"
  have h: "\<forall>a \<in> set ?as. str_fields attachment_keys_to_escape a \<and>
                          (has_key a ''fallback'' \<or> has_key a ''text'')"
    by (simp add: str_fields_def attachment_keys_to_escape_def has_key_def)
  from C7_fallback_from_text [OF h, of None None None None None None None None "Some ''normal''" None None None]
  obtain as' p where
    b: "build_payload_for_slack None None None None None None None None (Some ''normal'')
          (Some ?as) None None None = Inr (Some as', p)"
    and m0: "map_of p ''attachments'' =
             Some (PList ((case None of None \<Rightarrow> []
                           | Some t \<Rightarrow> if Some ''normal'' = Some ''normal'' then []
                                       else [text_attachment t (Some ''normal'')]) @ map PDict as'))"
    and l: "length as' = length ?as"
    and q: "\<forall>i < length ?as.
              (\<forall>k. k \<notin> set attachment_keys_to_escape \<longrightarrow> map_of (as' ! i) k = map_of (?as ! i) k) \<and>
              (\<forall>k \<in> set attachment_keys_to_escape. \<forall>v. map_of (?as ! i) k = Some v \<longrightarrow>
                 (\<exists>v'. escape_quotes v = Inr v' \<and> map_of (as' ! i) k = Some v')) \<and>
              (\<not> has_key (?as ! i) ''fallback'' \<longrightarrow>
                 has_key (as' ! i) ''fallback'' \<and>
                 map_of (as' ! i) ''fallback'' = map_of (as' ! i) ''text'')"
    by blast
  from m0 have m: "map_of p ''attachments'' = Some (PList (map PDict as'))" by simp
  from q have i0: "(\<forall>k. k \<notin> set attachment_keys_to_escape \<longrightarrow> map_of (as' ! 0) k = map_of (?as ! 0) k) \<and>
              (\<forall>k \<in> set attachment_keys_to_escape. \<forall>v. map_of (?as ! 0) k = Some v \<longrightarrow>
                 (\<exists>v'. escape_quotes v = Inr v' \<and> map_of (as' ! 0) k = Some v')) \<and>
              (\<not> has_key (?as ! 0) ''fallback'' \<longrightarrow>
                 has_key (as' ! 0) ''fallback'' \<and>
                 map_of (as' ! 0) ''fallback'' = map_of (as' ! 0) ''text'')"
    by simp
  from q have i1: "(\<forall>k \<in> set attachment_keys_to_escape. \<forall>v. map_of (?as ! 1) k = Some v \<longrightarrow>
                 (\<exists>v'. escape_quotes v = Inr v' \<and> map_of (as' ! 1) k = Some v'))"
    by simp
  from i0 have q0: "map_of (as' ! 0) ''ts'' = Some (PInt 3)"
    and q1: "map_of (as' ! 0) ''fallback'' = map_of (as' ! 0) ''text''"
    and q2: "\<exists>v'. escape_quotes (PStr ''a'') = Inr v' \<and> map_of (as' ! 0) ''text'' = Some v'"
    by (simp_all add: attachment_keys_to_escape_def has_key_def)
  from i1 have q3: "\<exists>v'. escape_quotes (PStr ''f'') = Inr v' \<and> map_of (as' ! 1) ''fallback'' = Some v'"
    by (simp add: attachment_keys_to_escape_def)
  from q2 have q2': "map_of (as' ! 0) ''text'' = Some (PStr ''a'')" by (auto simp add: escape_str_id)
  from q3 have q3': "map_of (as' ! 1) ''fallback'' = Some (PStr ''f'')" by (auto simp add: escape_str_id)
  from b m l q0 q1 q2' q3' show ?thesis by simp
qed

section \<open>An attachment without text\<close>

text \<open>
  Claim C9, the claim as it stands fails. An attachment with neither \<^verbatim>\<open>fallback\<close> nor
  \<^verbatim>\<open>text\<close> whose title is the integer 5 makes the call raise TypeError, not KeyError:
  \<^verbatim>\<open>escape_quotes\<close> cannot iterate over the title, and that comes before the lookup of
  \<^verbatim>\<open>text\<close>.
\<close>

theorem C9_counterexample:
  "\<not> has_key [(''title'', PInt 5)] ''fallback'' \<and> \<not> has_key [(''title'', PInt 5)] ''text'' \<and>
   build_payload_for_slack None None None None None None None None (Some ''normal'')
     (Some [[(''title'', PInt 5)]]) None None None = Inl TypeError"
  by (simp add: build_payload_Some process_attachment_def attachment_keys_to_escape_def
        has_key_def)

text \<open>
  Claim C9, amended. If an attachment of the list has neither \<^verbatim>\<open>fallback\<close> nor
  \<^verbatim>\<open>text\<close>, the call produces no payload: it raises KeyError for the key \<^verbatim>\<open>text\<close>,
  or TypeError when a value under one of the five escaped keys that is not a string is
  met first. When all the values under the five keys are strings, in every attachment,
  it is the KeyError.
\<close>

theorem C9_missing_text_raises:
  assumes "a \<in> set as" and "\<not> has_key a ''fallback''" and "\<not> has_key a ''text''"
  shows "(build_payload_for_slack text channel thread_id username icon_url icon_emoji
            link_names parse color (Some as) blocks message_id prepend_hash = Inl (KeyError ''text'') \<or>
          build_payload_for_slack text channel thread_id username icon_url icon_emoji
            link_names parse color (Some as) blocks message_id prepend_hash = Inl TypeError) \<and>
         ((\<forall>b \<in> set as. str_fields attachment_keys_to_escape b) \<longrightarrow>
          build_payload_for_slack text channel thread_id username icon_url icon_emoji
            link_names parse color (Some as) blocks message_id prepend_hash = Inl (KeyError ''text''))"
proof -
  from process_attachment_no_text[OF assms(2,3)]
  obtain e0 where "process_attachment a = Inl e0" by auto
  from map_err_Inl[where f = process_attachment, OF assms(1) this] obtain b e
    where b: "b \<in> set as" and pb: "process_attachment b = Inl e"
      and me: "map_err process_attachment as = Inl e" by blast
  have bp: "build_payload_for_slack text channel thread_id username icon_url icon_emoji
            link_names parse color (Some as) blocks message_id prepend_hash = Inl e"
    by (simp add: build_payload_Some me)
  from process_attachment_error[OF pb] have e: "e = KeyError ''text'' \<or> e = TypeError" .
  have "e = KeyError ''text''" if "\<forall>b \<in> set as. str_fields attachment_keys_to_escape b"
  proof -
    from that b have "str_fields attachment_keys_to_escape b" by simp
    from process_attachment_str_fields[OF this] pb show ?thesis
      by (auto split: if_splits option.splits)
  qed
  with bp e show ?thesis by auto
qed

theorem C9_missing_text_raises_witness:
  "build_payload_for_slack (Some ''x'') None None None None None None None (Some ''good'')
     (Some [[(''text'', PStr ''a'')], [(''title'', PStr ''t'')]]) None None None
   = Inl (KeyError ''text'')"
proof -
  let ?as = "[[(''text'', PStr ''a'')], [(''title'', PStr ''t'')]]"
  have 1: "[(''title'', PStr ''t'')] \<in> set ?as" by simp
  have 2: "\<not> has_key [(''title'', PStr ''t'')] ''fallback''" by (simp add: has_key_def)
  have 3: "\<not> has_key [(''title'', PStr ''t'')] ''text''" by (simp add: has_key_def)
  have 4: "\<forall>b \<in> set ?as. str_fields attachment_keys_to_escape b"
    by (simp add: str_fields_def attachment_keys_to_escape_def)
  from C9_missing_text_raises [OF 1 2 3, of "Some ''x''" None None None None None None None
         "Some ''good''" None None None] 4
  show ?thesis by blast
qed

section \<open>The credential classifier\<close>

lemma is_space_newline: "is_space (CHR 0x0A)"
  by (simp add: is_space_def)

lemma match_webapi_token_long:
  "match_webapi_token (a1 # a2 # a3 # c # d # rest) =
     (webapi_shape_spec (a1 # a2 # a3 # c # d # rest) \<or>
      (last (a1 # a2 # a3 # c # d # rest) = CHR 0x0A \<and>
       webapi_shape_spec (butlast (a1 # a2 # a3 # c # d # rest))))"
proof (cases "rest = []")
  case True
  then show ?thesis
    by (simp add: match_webapi_token_def webapi_shape_spec_def chomp_def)
next
  case False
  show ?thesis
  proof (cases "last rest = CHR 0x0A")
    case True
    with False have "\<exists>x \<in> set rest. is_space x"
      using is_space_newline last_in_set by metis
    with False True show ?thesis
      by (auto simp add: match_webapi_token_def webapi_shape_spec_def chomp_def)
  next
    case nl: False
    with False show ?thesis
      by (auto simp add: match_webapi_token_def webapi_shape_spec_def chomp_def)
  qed
qed

lemma short_token:
  assumes "length token < 5"
  shows "(case drop 3 token of c # d # rest \<Rightarrow> P c d rest | _ \<Rightarrow> False) = False"
proof -
  have "\<not> (\<exists>c d rest. drop 3 token = c # d # rest)"
  proof
    assume "\<exists>c d rest. drop 3 token = c # d # rest"
    then obtain c d rest where h: "drop 3 token = c # d # rest" by blast
    have "length (drop 3 token) = length (c # d # rest)" by (simp only: h)
    then show False using assms by simp
  qed
  then show ?thesis by (auto split: list.splits)
qed

lemma match_webapi_token_short:
  assumes "length token < 5"
  shows "match_webapi_token token =
     (webapi_shape_spec token \<or>
      (token \<noteq> [] \<and> last token = CHR 0x0A \<and> webapi_shape_spec (butlast token)))"
proof -
  have 1: "\<not> match_webapi_token token"
    unfolding match_webapi_token_def using short_token[OF assms] by simp
  have 2: "\<not> webapi_shape_spec token"
    unfolding webapi_shape_spec_def using short_token[OF assms] by simp
  have "length (butlast token) < 5" using assms by simp
  then have 3: "\<not> webapi_shape_spec (butlast token)"
    unfolding webapi_shape_spec_def using short_token[of "butlast token"] by simp
  from 1 2 3 show ?thesis by simp
qed

lemma match_webapi_token_spec:
  "match_webapi_token token =
     (webapi_shape_spec token \<or>
      (token \<noteq> [] \<and> last token = CHR 0x0A \<and> webapi_shape_spec (butlast token)))"
proof (cases "length token < 5")
  case True
  then show ?thesis by (rule match_webapi_token_short)
next
  case False
  then obtain a1 a2 a3 c d rest where "token = a1 # a2 # a3 # c # d # rest"
    by (cases token; cases "tl token"; cases "tl (tl token)"; cases "tl (tl (tl token))";
        cases "tl (tl (tl (tl token)))") auto
  then show ?thesis using match_webapi_token_long[of a1 a2 a3 c d rest] by simp
qed

lemma do_notify_slack_request:
  "select_endpoint domain token payload = Inr (uri, webapi) \<Longrightarrow>
   trace (snd (do_notify_slack e domain token payload w)) =
     trace w @ [\<lparr>rq_method = ''POST'', rq_url = uri, rq_headers = notify_headers webapi token,
                 rq_data = Some (jsonify e (PDict payload))\<rparr>]"
  by (simp add: do_notify_slack_def fetch_url_def Let_def split: list.split option.split)

text \<open>
  Claim C4, the claim as it stands fails. The token \<^verbatim>\<open>xoxb-abc\<close> followed by a
  newline has no \<^verbatim>\<open>/\<close> and is not of the shape the claim describes (the newline is
  a whitespace character), so the claim sends it down the legacy path. The code selects
  the WebAPI: \<^verbatim>\<open>$\<close> matches before the final newline.
\<close>

theorem C4_counterexample:
  "count_list (''xoxb-abc'' @ [CHR 0x0A]) CHR ''/'' < 2 \<and>
   \<not> webapi_shape_spec (''xoxb-abc'' @ [CHR 0x0A]) \<and>
   select_endpoint (Some ''example.slack.com'') (''xoxb-abc'' @ [CHR 0x0A]) [] =
     Inr (SLACK_POSTMESSAGE_WEBAPI, True) \<and>
   select_endpoint (Some ''example.slack.com'') (''xoxb-abc'' @ [CHR 0x0A]) [] \<noteq>
     Inr (OLD_SLACK_INCOMING_WEBHOOK ''example.slack.com'' (''xoxb-abc'' @ [CHR 0x0A]), False)"
  by (simp add: select_endpoint_def match_webapi_token_def webapi_shape_spec_def chomp_def
        is_space_def has_key_def)

text \<open>
  Claim C4, amended. The classifier is a chain in this order. A token with two or more
  \<^verbatim>\<open>/\<close> takes the new-style webhook address, whatever else it holds. Otherwise a
  token that is \<^verbatim>\<open>xox\<close>, one of a, b, p, \<^verbatim>\<open>-\<close> and one or more non-whitespace
  characters, or such a token followed by one final newline, takes the WebAPI: the
  update address if and only if the payload has the key \<^verbatim>\<open>ts\<close>, the post address
  otherwise. Otherwise the token is a legacy one: the call fails with the configuration
  error, sending nothing, if and only if the domain is None or empty, and takes the
  legacy address otherwise. Whenever an address is selected, one POST request goes to
  it, and it carries the header \<^verbatim>\<open>Authorization: Bearer\<close> with the token exactly on
  the WebAPI path.
\<close>

theorem C4_classifier_chain:
  "select_endpoint domain token payload =
     (if 2 \<le> count_list token CHR ''/'' then Inr (SLACK_INCOMING_WEBHOOK token, False)
      else if webapi_shape_spec token \<or>
              (token \<noteq> [] \<and> last token = CHR 0x0A \<and> webapi_shape_spec (butlast token))
      then Inr (if has_key payload ''ts'' then SLACK_UPDATEMESSAGE_WEBAPI
                else SLACK_POSTMESSAGE_WEBAPI, True)
      else if domain = None \<or> domain = Some []
      then Inl (fail_msg (''Slack has updated its webhook API.  You need to specify a token of the form '' @
                          ''XXXX/YYYY/ZZZZ in your playbook''))
      else Inr (OLD_SLACK_INCOMING_WEBHOOK (case domain of Some d \<Rightarrow> d | None \<Rightarrow> []) token, False)) \<and>
   (\<forall>out. select_endpoint domain token payload = Inl out \<longrightarrow>
      do_notify_slack e domain token payload w = (Inl out, w)) \<and>
   (\<forall>uri webapi. select_endpoint domain token payload = Inr (uri, webapi) \<longrightarrow>
      trace (snd (do_notify_slack e domain token payload w)) =
        trace w @ [\<lparr>rq_method = ''POST'', rq_url = uri,
                    rq_headers = [(''Content-Type'', ''application/json; charset=UTF-8''),
                                  (''Accept'', ''application/json'')] @
                                 (if webapi then [(''Authorization'', ''Bearer '' @ token)] else []),
                    rq_data = Some (jsonify e (PDict payload))\<rparr>])"
proof (intro conjI allI impI)
  show "select_endpoint domain token payload =
     (if 2 \<le> count_list token CHR ''/'' then Inr (SLACK_INCOMING_WEBHOOK token, False)
      else if webapi_shape_spec token \<or>
              (token \<noteq> [] \<and> last token = CHR 0x0A \<and> webapi_shape_spec (butlast token))
      then Inr (if has_key payload ''ts'' then SLACK_UPDATEMESSAGE_WEBAPI
                else SLACK_POSTMESSAGE_WEBAPI, True)
      else if domain = None \<or> domain = Some []
      then Inl (fail_msg (''Slack has updated its webhook API.  You need to specify a token of the form '' @
                          ''XXXX/YYYY/ZZZZ in your playbook''))
      else Inr (OLD_SLACK_INCOMING_WEBHOOK (case domain of Some d \<Rightarrow> d | None \<Rightarrow> []) token, False))"
    unfolding select_endpoint_def match_webapi_token_spec
    by (cases domain) simp_all
next
  fix out assume "select_endpoint domain token payload = Inl out"
  then show "do_notify_slack e domain token payload w = (Inl out, w)"
    by (simp add: do_notify_slack_def)
next
  fix uri webapi assume "select_endpoint domain token payload = Inr (uri, webapi)"
  from do_notify_slack_request[OF this]
  show "trace (snd (do_notify_slack e domain token payload w)) =
        trace w @ [\<lparr>rq_method = ''POST'', rq_url = uri,
                    rq_headers = [(''Content-Type'', ''application/json; charset=UTF-8''),
                                  (''Accept'', ''application/json'')] @
                                 (if webapi then [(''Authorization'', ''Bearer '' @ token)] else []),
                    rq_data = Some (jsonify e (PDict payload))\<rparr>]"
    by (simp add: notify_headers_def)
qed

theorem C4_classifier_chain_witness:
  "select_endpoint None ''xoxb-1/2/3'' [] = Inr (SLACK_INCOMING_WEBHOOK ''xoxb-1/2/3'', False) \<and>
   select_endpoint None ''xoxp-12'' [(''ts'', PStr ''1.2'')] = Inr (SLACK_UPDATEMESSAGE_WEBAPI, True) \<and>
   select_endpoint None ''xoxp-12'' [] = Inr (SLACK_POSTMESSAGE_WEBAPI, True) \<and>
   select_endpoint (Some ''d.slack.com'') ''abc'' [] =
     Inr (OLD_SLACK_INCOMING_WEBHOOK ''d.slack.com'' ''abc'', False) \<and>
   do_notify_slack example_env None ''abc'' [] \<lparr>script = [], trace = []\<rparr> =
     (Inl (fail_msg (''Slack has updated its webhook API.  You need to specify a token of the form '' @
                     ''XXXX/YYYY/ZZZZ in your playbook'')), \<lparr>script = [], trace = []\<rparr>) \<and>
   trace (snd (do_notify_slack example_env None ''xoxp-12'' [] \<lparr>script = [], trace = []\<rparr>)) =
     [\<lparr>rq_method = ''POST'', rq_url = SLACK_POSTMESSAGE_WEBAPI,
       rq_headers = [(''Content-Type'', ''application/json; charset=UTF-8''),
                     (''Accept'', ''application/json''),
                     (''Authorization'', ''Bearer xoxp-12'')],
       rq_data = Some (jsonify example_env (PDict []))\<rparr>]"
proof -
  let ?w = "\<lparr>script = [], trace = []\<rparr>"
  note a = C4_classifier_chain [of None "''xoxb-1/2/3''" "[]" example_env ?w]
  note b = C4_classifier_chain [of None "''xoxp-12''" "[(''ts'', PStr ''1.2'')]" example_env ?w]
  note c = C4_classifier_chain [of None "''xoxp-12''" "[]" example_env ?w]
  note d = C4_classifier_chain [of "Some ''d.slack.com''" "''abc''" "[]" example_env ?w]
  note f = C4_classifier_chain [of None "''abc''" "[]" example_env ?w]
  have s1: "select_endpoint None ''xoxb-1/2/3'' [] = Inr (SLACK_INCOMING_WEBHOOK ''xoxb-1/2/3'', False)"
    using a by simp
  have s2: "select_endpoint None ''xoxp-12'' [(''ts'', PStr ''1.2'')] = Inr (SLACK_UPDATEMESSAGE_WEBAPI, True)"
    using b by (simp add: webapi_shape_spec_def is_space_def has_key_def)
  have s3: "select_endpoint None ''xoxp-12'' [] = Inr (SLACK_POSTMESSAGE_WEBAPI, True)"
    using c by (simp add: webapi_shape_spec_def is_space_def has_key_def)
  have s4: "select_endpoint (Some ''d.slack.com'') ''abc'' [] =
     Inr (OLD_SLACK_INCOMING_WEBHOOK ''d.slack.com'' ''abc'', False)"
    using d by (simp add: webapi_shape_spec_def)
  have s5: "select_endpoint None ''abc'' [] =
     Inl (fail_msg (''Slack has updated its webhook API.  You need to specify a token of the form '' @
                     ''XXXX/YYYY/ZZZZ in your playbook''))"
    using f by (simp add: webapi_shape_spec_def)
  from f s5 have s6: "do_notify_slack example_env None ''abc'' [] ?w =
     (Inl (fail_msg (''Slack has updated its webhook API.  You need to specify a token of the form '' @
                     ''XXXX/YYYY/ZZZZ in your playbook'')), ?w)"
    by blast
  from c s3 have s7: "trace (snd (do_notify_slack example_env None ''xoxp-12'' [] ?w)) =
     trace ?w @ [\<lparr>rq_method = ''POST'', rq_url = SLACK_POSTMESSAGE_WEBAPI,
       rq_headers = [(''Content-Type'', ''application/json; charset=UTF-8''),
                     (''Accept'', ''application/json'')] @
                    (if True then [(''Authorization'', ''Bearer '' @ ''xoxp-12'')] else []),
       rq_data = Some (jsonify example_env (PDict []))\<rparr>]"
    by blast
  from s1 s2 s3 s4 s6 s7 show ?thesis by simp
qed

section \<open>The error text of a failed delivery\<close>





section \<open>The dry run\<close>

lemma trace_get_slack_message:
  "trace (snd (get_slack_message e token channel ts w)) =
     trace w @ [\<lparr>rq_method = ''GET'',
                 rq_url = SLACK_CONVERSATIONS_HISTORY_WEBAPI @ ''?'' @
                          urlencode e [(''channel'', opt_str channel), (''ts'', PStr ts),
                                       (''limit'', PInt 1), (''inclusive'', PStr ''true'')],
                 rq_headers = [(''Content-Type'', ''application/json; charset=UTF-8''),
                               (''Accept'', ''application/json''),
                               (''Authorization'', ''Bearer '' @ token)],
                 rq_data = None\<rparr>]"
  by (simp add: get_slack_message_def fetch_url_def Let_def
        split: list.split option.split sum.split)

text \<open>
  On the message path the dry run is respected: with \<open>check_mode\<close> the only request
  \<^verbatim>\<open>main\<close> can send is the GET that fetches the message to edit.
\<close>

lemma main_message_check_mode:
  "trace (snd (main_message e True p w)) = trace w \<or>
   (\<exists>rq. trace (snd (main_message e True p w)) = trace w @ [rq] \<and> rq_method rq = ''GET'')"
proof (cases "p_color p")
  case None
  then show ?thesis by (simp add: main_message_def)
next
  case (Some color)
  show ?thesis
  proof (cases "p_message_id p")
    case None
    with \<open>p_color p = Some color\<close> show ?thesis by (simp add: main_message_def Let_def)
  next
    case (Some mid)
    obtain r w' where g: "get_slack_message e (p_token p) (p_channel p) mid w = (r, w')"
      by (cases "get_slack_message e (p_token p) (p_channel p) mid w")
    have t: "\<exists>rq. trace w' = trace w @ [rq] \<and> rq_method rq = ''GET''"
      using trace_get_slack_message[of e "p_token p" "p_channel p" mid w] g by simp
    have "snd (main_message e True p w) = w \<or> snd (main_message e True p w) = w'"
      using \<open>p_color p = Some color\<close> Some g
      by (simp add: main_message_def Let_def split: sum.split)
    with t show ?thesis by auto
  qed
qed

lemma ok_response_sel:
  "rs_status (ok_response b) = 200" "rs_body (ok_response b) = b"
  by (simp_all add: ok_response_def)

lemma example_channel_lookup:
  "get_channel_id_loop example_env tok (PStr ''ansible'') ps PNone
     \<lparr>script = [ok_response ''<channels>'', ok_response ''<done>''], trace = tr\<rparr> =
   (Inr (PStr ''C024''),
    \<lparr>script = [ok_response ''<done>''],
     trace = tr @ [\<lparr>rq_method = ''GET'',
                    rq_url = SLACK_CONVERSATIONS_LIST_WEBAPI @ ''?<query>'',
                    rq_headers = [(''Authorization'', ''Bearer '' @ tok)],
                    rq_data = None\<rparr>]\<rparr>)"
  by (subst get_channel_id_loop.simps)
     (simp add: fetch_url_def example_env_def ok_response_sel read_page_def py_get_def Let_def)

text \<open>
  Claim C2. The claim: in check mode no network write is ever performed, also when a
  file upload is requested. The code tests \<open>check_mode\<close> on the message path only (see
  \<open>main_message_check_mode\<close>); the upload branch comes first and has no such test.
  The theorem runs \<^verbatim>\<open>main\<close> in check mode with an upload request for an existing file
  and four answers of status 200: the run sends two POST requests, the file content to
  the upload address and the completion, and reports a change.
\<close>

theorem C2_upload_in_check_mode:
  "main example_env True
     (example_params\<lparr>p_channel := Some ''ansible'',
                     p_upload_file := Some [(''path'', PStr ''/tmp/report.txt'')]\<rparr>)
     \<lparr>script = [ok_response ''<upload url>'', ok_response [], ok_response ''<channels>'',
                ok_response ''<done>''],
      trace = []\<rparr> =
   (ExitJson [(''changed'', PBool True), (''msg'', PStr ''File uploaded successfully''),
              (''upload_response'', PDict [(''ok'', PBool True)])],
    \<lparr>script = [],
     trace = [\<lparr>rq_method = ''GET'',
               rq_url = SLACK_GET_UPLOAD_URL_EXTERNAL @ ''?<query>'',
               rq_headers = [(''Authorization'', ''Bearer xoxb-1234''),
                             (''Content-Type'', ''application/x-www-form-urlencoded'')],
               rq_data = None\<rparr>,
              \<lparr>rq_method = ''POST'',
               rq_url = ''https://files.slack.com/upload/v1/abc'',
               rq_headers = [(''Content-Type'', ''application/octet-stream'')],
               rq_data = Some ''report''\<rparr>,
              \<lparr>rq_method = ''GET'',
               rq_url = SLACK_CONVERSATIONS_LIST_WEBAPI @ ''?<query>'',
               rq_headers = [(''Authorization'', ''Bearer xoxb-1234'')],
               rq_data = None\<rparr>,
              \<lparr>rq_method = ''POST'',
               rq_url = SLACK_COMPLETE_UPLOAD_EXTERNAL,
               rq_headers = [(''Authorization'', ''Bearer xoxb-1234''),
                             (''Content-Type'', ''application/json'')],
               rq_data = Some ''<json>''\<rparr>]\<rparr>)"
  by (simp add: main_def main_upload_def upload_file_to_slack_def upload_steps_def
        example_params_def opt_str_def get_channel_id_def example_channel_lookup
        fetch_url_def Let_def copy_if_true_def load_ok_def py_get_def
        example_env_def ok_response_sel read_page_def)

section \<open>Editing a message that needs no change\<close>

lemma param_get_msg_update:
  "param_get (p\<lparr>p_msg := t\<rparr>) key = param_get p key"
  by (simp add: param_get_def)

lemma message_changed_msg_update:
  "message_changed m (p\<lparr>p_msg := t\<rparr>) keys = message_changed m p keys"
  by (induction keys) (simp_all add: param_get_msg_update split: sum.split)

lemma message_changed_all_equal:
  "(\<And>key. key \<in> set keys \<Longrightarrow>
       py_eq (case map_of m key of None \<Rightarrow> PNone | Some v \<Rightarrow> v) (param_get p key)) \<Longrightarrow>
   message_changed (PDict m) p keys = Inr False"
  by (induction keys) (simp_all add: py_get_def)

text \<open>
  Claim C5. The claim: when the fetched message equals the request in the compared
  fields, the module reports no change and sends nothing more. The report is
  \<^verbatim>\<open>module.exit_json(changed=changed, ts=msg['ts'], channel=msg['channel'])\<close>, with
  two subscripts that nothing guards. The theorem runs \<^verbatim>\<open>main\<close> on a history answer
  whose message has \<open>ts\<close>, \<open>text\<close> and \<open>color\<close> and no \<open>channel\<close>: the comparison finds
  no change, and both without and with check mode the run ends in KeyError for
  \<open>channel\<close> in place of the report.
\<close>

theorem C5_missing_channel_raises:
  "message_changed
     (PDict [(''ts'', PStr ''1503435956.000247''), (''text'', PStr ''old text''),
             (''color'', PStr ''normal'')])
     (example_params\<lparr>p_message_id := Some ''1503435956.000247''\<rparr>) diff_keys = Inr False \<and>
   fst (main example_env False
          (example_params\<lparr>p_message_id := Some ''1503435956.000247''\<rparr>)
          \<lparr>script = [ok_response ''<message without channel>''], trace = []\<rparr>) =
     Raised (KeyError ''channel'') \<and>
   fst (main example_env True
          (example_params\<lparr>p_message_id := Some ''1503435956.000247''\<rparr>)
          \<lparr>script = [ok_response ''<message without channel>''], trace = []\<rparr>) =
     Raised (KeyError ''channel'')"
  by (simp add: main_def main_message_def example_params_def get_slack_message_def
        fetch_url_def ok_response_sel example_env_def single_message_def py_get_def
        diff_keys_def param_get_def opt_str_def color_choices_def Let_def)

text \<open>
  The same path for a message that has both fields of the report. Without an upload
  request and with a valid colour, when the
  message fetched for \<open>message_id\<close> is a dictionary that equals the request in
  \<open>icon_url\<close>, \<open>icon_emoji\<close>, \<open>link_names\<close>, \<open>color\<close>, \<open>attachments\<close> and \<open>blocks\<close>
  (an absent field counting as \<open>None\<close>) and that has the fields \<open>ts\<close> and \<open>channel\<close>,
  \<^verbatim>\<open>main\<close> exits with \<open>changed = False\<close> and these two fields, in check mode or not.
  The one request of the run is the GET that fetched the message. The message text is no
  part of the comparison: the hypotheses say nothing of the text of the fetched message,
  and the result is the same for every requested text \<open>t\<close>.
\<close>

lemma unchanged_message:
  assumes "p_upload_file p = None \<or> p_upload_file p = Some []"
    and "p_color p = Some color"
    and "color \<in> set color_choices \<or> is_valid_hex_color color"
    and "p_message_id p = Some mid"
    and "get_slack_message e (p_token p) (p_channel p) mid w = (Inr (PDict m), w')"
    and "\<forall>key \<in> set diff_keys.
           py_eq (case map_of m key of None \<Rightarrow> PNone | Some v \<Rightarrow> v) (param_get p key)"
    and "map_of m ''ts'' = Some ts"
    and "map_of m ''channel'' = Some ch"
  shows "main e check_mode (p\<lparr>p_msg := t\<rparr>) w =
           (ExitJson [(''changed'', PBool False), (''ts'', ts), (''channel'', ch)], w') \<and>
         trace w' =
           trace w @ [\<lparr>rq_method = ''GET'',
                       rq_url = SLACK_CONVERSATIONS_HISTORY_WEBAPI @ ''?'' @
                                urlencode e [(''channel'', opt_str (p_channel p)),
                                             (''ts'', PStr mid), (''limit'', PInt 1),
                                             (''inclusive'', PStr ''true'')],
                       rq_headers = [(''Content-Type'', ''application/json; charset=UTF-8''),
                                     (''Accept'', ''application/json''),
                                     (''Authorization'', ''Bearer '' @ p_token p)],
                       rq_data = None\<rparr>] \<and>
         ''text'' \<notin> set diff_keys"
proof -
  have same: "message_changed (PDict m) (p\<lparr>p_msg := t\<rparr>) diff_keys = Inr False"
    using assms(6) by (simp add: message_changed_msg_update message_changed_all_equal)
  have msg: "main_message e check_mode (p\<lparr>p_msg := t\<rparr>) w =
               (ExitJson [(''changed'', PBool False), (''ts'', ts), (''channel'', ch)], w')"
    using assms(2-5,7,8) same by (auto simp add: main_message_def Let_def)
  have "main e check_mode (p\<lparr>p_msg := t\<rparr>) w = main_message e check_mode (p\<lparr>p_msg := t\<rparr>) w"
    using assms(1) by (auto simp add: main_def)
  moreover have "trace w' =
           trace w @ [\<lparr>rq_method = ''GET'',
                       rq_url = SLACK_CONVERSATIONS_HISTORY_WEBAPI @ ''?'' @
                                urlencode e [(''channel'', opt_str (p_channel p)),
                                             (''ts'', PStr mid), (''limit'', PInt 1),
                                             (''inclusive'', PStr ''true'')],
                       rq_headers = [(''Content-Type'', ''application/json; charset=UTF-8''),
                                     (''Accept'', ''application/json''),
                                     (''Authorization'', ''Bearer '' @ p_token p)],
                       rq_data = None\<rparr>]"
    using trace_get_slack_message[of e "p_token p" "p_channel p" mid w] assms(5) by simp
  moreover have "''text'' \<notin> set diff_keys"
    by (simp add: diff_keys_def)
  ultimately show ?thesis
    using msg by simp
qed

lemma example_get_slack_message:
  "get_slack_message example_env ''xoxb-1234'' (Some ''C024'') ''1503435956.000247''
     \<lparr>script = [ok_response ''<message>''], trace = []\<rparr> =
   (Inr (PDict [(''ts'', PStr ''1503435956.000247''), (''channel'', PStr ''C024''),
                (''text'', PStr ''old text''), (''color'', PStr ''normal'')]),
    \<lparr>script = [],
     trace = [\<lparr>rq_method = ''GET'',
               rq_url = SLACK_CONVERSATIONS_HISTORY_WEBAPI @ ''?<query>'',
               rq_headers = [(''Content-Type'', ''application/json; charset=UTF-8''),
                             (''Accept'', ''application/json''),
                             (''Authorization'', ''Bearer xoxb-1234'')],
               rq_data = None\<rparr>]\<rparr>)"
  by (simp add: get_slack_message_def fetch_url_def ok_response_sel example_env_def
        single_message_def py_get_def Let_def)

lemma unchanged_message_example:
  "main example_env False
     (example_params\<lparr>p_channel := Some ''C024'',
                     p_message_id := Some ''1503435956.000247'',
                     p_msg := Some ''new text''\<rparr>)
     \<lparr>script = [ok_response ''<message>''], trace = []\<rparr> =
   (ExitJson [(''changed'', PBool False), (''ts'', PStr ''1503435956.000247''),
              (''channel'', PStr ''C024'')],
    \<lparr>script = [],
     trace = [\<lparr>rq_method = ''GET'',
               rq_url = SLACK_CONVERSATIONS_HISTORY_WEBAPI @ ''?<query>'',
               rq_headers = [(''Content-Type'', ''application/json; charset=UTF-8''),
                             (''Accept'', ''application/json''),
                             (''Authorization'', ''Bearer xoxb-1234'')],
               rq_data = None\<rparr>]\<rparr>)"
proof -
  let ?p = "example_params\<lparr>p_channel := Some ''C024'',
                           p_message_id := Some ''1503435956.000247''\<rparr>"
  let ?m = "[(''ts'', PStr ''1503435956.000247''), (''channel'', PStr ''C024''),
             (''text'', PStr ''old text''), (''color'', PStr ''normal'')]"
  have g: "get_slack_message example_env (p_token ?p) (p_channel ?p) ''1503435956.000247''
             \<lparr>script = [ok_response ''<message>''], trace = []\<rparr> =
           (Inr (PDict ?m),
            \<lparr>script = [],
             trace = [\<lparr>rq_method = ''GET'',
                       rq_url = SLACK_CONVERSATIONS_HISTORY_WEBAPI @ ''?<query>'',
                       rq_headers = [(''Content-Type'', ''application/json; charset=UTF-8''),
                                     (''Accept'', ''application/json''),
                                     (''Authorization'', ''Bearer xoxb-1234'')],
                       rq_data = None\<rparr>]\<rparr>)"
    using example_get_slack_message by (simp add: example_params_def)
  have eq: "\<forall>key \<in> set diff_keys.
              py_eq (case map_of ?m key of None \<Rightarrow> PNone | Some v \<Rightarrow> v) (param_get ?p key)"
    by (simp add: diff_keys_def param_get_def example_params_def opt_str_def)
  have "main example_env False (?p\<lparr>p_msg := Some ''new text''\<rparr>)
          \<lparr>script = [ok_response ''<message>''], trace = []\<rparr> =
        (ExitJson [(''changed'', PBool False), (''ts'', PStr ''1503435956.000247''),
                   (''channel'', PStr ''C024'')],
         \<lparr>script = [],
          trace = [\<lparr>rq_method = ''GET'',
                    rq_url = SLACK_CONVERSATIONS_HISTORY_WEBAPI @ ''?<query>'',
                    rq_headers = [(''Content-Type'', ''application/json; charset=UTF-8''),
                                  (''Accept'', ''application/json''),
                                  (''Authorization'', ''Bearer xoxb-1234'')],
                    rq_data = None\<rparr>]\<rparr>)"
    using unchanged_message[OF _ _ _ _ g eq, of "''normal''" "PStr ''1503435956.000247''"
            "PStr ''C024''" False "Some ''new text''"]
    by (simp add: example_params_def color_choices_def)
  then show ?thesis by simp
qed

section \<open>What the escaping of the blocks does to the store\<close>







lemma adds_new_objects_nth:
  "adds_new_objects g h \<Longrightarrow> a < length g \<Longrightarrow> h ! a = g ! a"
proof -
  assume a: "adds_new_objects g h" "a < length g"
  then have "take (length g) h = g" by (simp add: adds_new_objects_def)
  then have "g ! a = take (length g) h ! a" by simp
  with a(2) show ?thesis by simp
qed








section \<open>The tree a value of the store stands for\<close>















section \<open>What the loop over the attachments does to the store\<close>



















section \<open>Attachments are changed in place, blocks are copied\<close>




end
